theory Spec2Isabelle
  imports Complex_Main
begin

section \<open>Shared data\<close>

text \<open>
  What a catch handler receives: the value a promise rejected with or a statement threw.
  A rejected promise and a thrown exception are both the \<open>Inl\<close> branch of a result
  \<open>js_error + 'a\<close>. The handlers of the sources only read \<^verbatim>\<open>e.message\<close> and \<^verbatim>\<open>e.stack\<close> and
  print them in a template literal. On \<^verbatim>\<open>undefined\<close> and \<^verbatim>\<open>null\<close> (\<open>JsNullish\<close>) each of these
  reads raises a TypeError. On every other value (\<open>JsError m st\<close>) they give what the
  template literal prints as \<open>m\<close> and \<open>st\<close>: the message and the stack of an \<^verbatim>\<open>Error\<close>
  object, the text \<^verbatim>\<open>undefined\<close> for a value without these properties.
\<close>

datatype js_error = JsError (err_message: string) (err_stack: string) | JsNullish

text \<open>The argument of every logger call: \<^verbatim>\<open>{category?, message, level?}\<close>.\<close>

record log_line =
  category :: "string option"
  log_message :: string
  level :: "nat option"

text \<open>
  JSON values and zod schemas are opaque to the orchestration code: it only passes
  them on. They are held as their text.
\<close>

type_synonym json = string
type_synonym zod_schema = string
type_synonym number = rat

text \<open>Template literals print numbers in decimal.\<close>

fun digits :: "nat \<Rightarrow> string" where
  "digits n = (if n < 10 then [char_of (48 + n)] else digits (n div 10) @ [char_of (48 + n mod 10)])"

declare digits.simps [simp del]

definition show_int :: "int \<Rightarrow> string" where
  "show_int i = (if i < 0 then CHR ''-'' # digits (nat (- i)) else digits (nat i))"

text \<open>
  A JavaScript number, as a timeout may be one. A template literal prints an integer below
  \<open>10\<^sup>2\<^sup>1\<close> in decimal; the text of any other finite number is the engine's, here the
  parameter \<open>other\<close>.
\<close>

datatype js_number = Num rat | NaN | PosInfinity | NegInfinity

definition show_number :: "(rat \<Rightarrow> string) \<Rightarrow> js_number \<Rightarrow> string" where
  "show_number other x =
     (case x of
        Num r \<Rightarrow>
          if r = of_int \<lfloor>r\<rfloor> \<and> \<bar>r\<bar> < 10 ^ 21 then show_int \<lfloor>r\<rfloor> else other r
      | NaN \<Rightarrow> ''NaN''
      | PosInfinity \<Rightarrow> ''Infinity''
      | NegInfinity \<Rightarrow> ''-Infinity'')"

text \<open>
  The delay of Node's \<^verbatim>\<open>setTimeout\<close>, in ms: a delay that is larger than 2147483647, less
  than 1 or \<^verbatim>\<open>NaN\<close> is set to 1, and a fraction is truncated.
\<close>

definition timerDelay :: "js_number \<Rightarrow> nat" where
  "timerDelay x =
     (case x of
        Num r \<Rightarrow> if r < 1 \<or> 2147483647 < r then 1 else nat \<lfloor>r\<rfloor>
      | NaN \<Rightarrow> 1
      | PosInfinity \<Rightarrow> 1
      | NegInfinity \<Rightarrow> 1)"

section \<open>The Anthropic client (lib/llm/AnthropicClient.ts)\<close>

subsection \<open>Chat completion options\<close>

datatype content_block =
    ImageBlock string string string  \<comment> \<open>source type, media type, data\<close>
  | TextBlock string

datatype message_content = Text string | Blocks "content_block list"

record chat_message =
  role :: string
  content :: message_content

record image_attachment =
  buffer :: "nat list"
  img_description :: "string option"

record response_model_spec =
  rm_name :: string
  rm_schema :: zod_schema

datatype tool =
    FunctionTool string string "json option" "json option"
      \<comment> \<open>type "function": function.name, function.description,
          function.parameters.properties, function.parameters.required\<close>
  | OtherTool json

record chat_options =
  model :: string
  messages :: "chat_message list"
  temperature :: "number option"
  image :: "image_attachment option"
  response_model :: "response_model_spec option"
  tools :: "tool list option"
  max_tokens :: "nat option"
  retries :: "int option"

text \<open>The object \<^verbatim>\<open>cacheOptions\<close> that the client hands to the cache as the key.\<close>

record cache_options =
  co_model :: string
  co_messages :: "chat_message list"
  co_temperature :: "number option"
  co_image :: "image_attachment option"
  co_response_model :: "response_model_spec option"
  co_tools :: "tool list option"
  co_retries :: "int option"

subsection \<open>Provider request and response\<close>

datatype anthropic_tool =
    ToolDef string string "json option" "json option"
      \<comment> \<open>name, description, input_schema.properties, input_schema.required\<close>
  | RawTool json

record anthropic_request =
  req_model :: string
  req_max_tokens :: nat
  req_messages :: "chat_message list"
  req_tools :: "anthropic_tool list option"
  req_system :: "message_content option"
  req_temperature :: "number option"

datatype response_block =
    RText string
  | RToolUse string string json  \<comment> \<open>id, name, input\<close>

record anthropic_response =
  resp_id :: string
  resp_model :: string
  resp_content :: "response_block list"
  stop_reason :: "string option"
  input_tokens :: nat
  output_tokens :: nat

record tool_call =
  tc_id :: string
  tc_type :: string
  tc_name :: string
  tc_arguments :: string

record transformed_response =
  tr_id :: string
  tr_object :: string
  tr_created :: nat
  tr_model :: string
  tr_role :: string
  tr_content :: "string option"
  tr_tool_calls :: "tool_call list"
  tr_finish_reason :: "string option"
  prompt_tokens :: nat
  completion_tokens :: nat
  total_tokens :: nat

text \<open>
  What \<^verbatim>\<open>createChatCompletion\<close> resolves with: the input of the tool-use block when a
  response schema was given, the transformed response otherwise.
\<close>

datatype completion = Structured json | Completion transformed_response

record json_schema_object =
  properties :: "json option"
  required :: "json option"

record json_schema =
  definitions_MySchema :: "json_schema_object option"
  top_level :: json_schema_object

subsection \<open>The response cache\<close>

text \<open>
  Modelled from the spec: the class \<^verbatim>\<open>LLMCache\<close> (lib/cache/LLMCache.ts) is not among the
  sources; only its calls \<^verbatim>\<open>get(key, requestId)\<close> and \<^verbatim>\<open>set(key, value, requestId)\<close> are.
  The spec's cache entry has a key, the structured response as its value, and is "additionally
  indexed by an ephemeral request ID for targeted invalidation"; entries are "only inserted,
  read, or deleted by requestID". An entry is the triple of the three; the newest entry of a
  key is the one read.
\<close>

type_synonym LLMCache = "(cache_options \<times> completion \<times> string) list"

text \<open>
  Modelled from the spec: \<^verbatim>\<open>LLMCache.get\<close> is not among the sources. A read returns the
  value stored under the key ("a cache hit exists for the fingerprint"), whoever asks.
\<close>

definition cache_get :: "LLMCache \<Rightarrow> cache_options \<Rightarrow> string \<Rightarrow> completion option" where
  "cache_get entries key rid =
     (case find (\<lambda>e. fst e = key) entries of
        None \<Rightarrow> None
      | Some e \<Rightarrow> Some (fst (snd e)))"

text \<open>
  Modelled from the spec: \<^verbatim>\<open>LLMCache.set\<close> is not among the sources. An insertion adds
  the entry, indexed by the request id of the client that stores it.
\<close>

definition cache_set :: "LLMCache \<Rightarrow> cache_options \<Rightarrow> completion \<Rightarrow> string \<Rightarrow> LLMCache" where
  "cache_set entries key v rid = (key, v, rid) # entries"

text \<open>
  Modelled from the spec: the deletion by request id of \<^verbatim>\<open>LLMCache\<close> is not among the
  sources. It removes the entries indexed by the request id and no others.
\<close>

definition deleteCacheForRequestId :: "LLMCache \<Rightarrow> string \<Rightarrow> LLMCache" where
  "deleteCacheForRequestId entries rid = filter (\<lambda>e. snd (snd e) \<noteq> rid) entries"

subsection \<open>The client and its collaborators\<close>

text \<open>
  The fields of the class, the lines its logger received, and the requests it has sent to
  the provider so far (its network effect).
\<close>

record AnthropicClient =
  ac_enableCaching :: bool
  ac_requestId :: string
  ac_cache :: LLMCache
  ac_logged :: "log_line list"
  ac_sent :: "anthropic_request list"

text \<open>
  The SDK and library functions the client calls. The provider answers the \<open>n\<close>-th request
  of the client (counted from 0), so two identical requests may get different answers.
\<close>

record provider =
  messages_create :: "nat \<Rightarrow> anthropic_request \<Rightarrow> js_error + anthropic_response"
  zodToJsonSchema :: "zod_schema \<Rightarrow> json_schema"
  toBase64 :: "nat list \<Rightarrow> string"
  date_now :: "nat \<Rightarrow> nat"
  stringify_options :: "chat_options \<Rightarrow> string"
  stringify_response :: "anthropic_response \<Rightarrow> string"
  stringify_transformed :: "transformed_response \<Rightarrow> string"
  new_error_stack :: string

definition ac_logger :: "log_line \<Rightarrow> AnthropicClient \<Rightarrow> AnthropicClient" where
  "ac_logger l c = c\<lparr>ac_logged := ac_logged c @ [l]\<rparr>"

definition cacheOptions :: "chat_options \<Rightarrow> cache_options" where
  "cacheOptions opts =
     \<lparr>co_model = model opts, co_messages = messages opts, co_temperature = temperature opts,
      co_image = image opts, co_response_model = response_model opts, co_tools = tools opts,
      co_retries = retries opts\<rparr>"

definition screenshotMessage :: "provider \<Rightarrow> image_attachment \<Rightarrow> chat_message" where
  "screenshotMessage P img =
     \<lparr>role = ''user'',
      content = Blocks
        (ImageBlock ''base64'' ''image/jpeg'' (toBase64 P (buffer img)) #
         (case img_description img of
            None \<Rightarrow> []
          | Some d \<Rightarrow> if d = [] then [] else [TextBlock d]))\<rparr>"

definition transformTool :: "tool \<Rightarrow> anthropic_tool" where
  "transformTool t =
     (case t of
        FunctionTool name descr props req \<Rightarrow> ToolDef name descr props req
      | OtherTool raw \<Rightarrow> RawTool raw)"

definition toolDefinition :: "provider \<Rightarrow> response_model_spec \<Rightarrow> anthropic_tool" where
  "toolDefinition P rm =
     (let jsonSchema = zodToJsonSchema P (rm_schema rm);
          my = definitions_MySchema jsonSchema;
          schemaProperties =
            (case (case my of None \<Rightarrow> None | Some d \<Rightarrow> properties d) of
               Some p \<Rightarrow> Some p
             | None \<Rightarrow> properties (top_level jsonSchema));
          schemaRequired =
            (case (case my of None \<Rightarrow> None | Some d \<Rightarrow> required d) of
               Some r \<Rightarrow> Some r
             | None \<Rightarrow> required (top_level jsonSchema))
      in ToolDef ''print_extracted_data''
           ''Prints the extracted data based on the provided schema.''
           schemaProperties schemaRequired)"

definition anthropicTools :: "provider \<Rightarrow> chat_options \<Rightarrow> anthropic_tool list option" where
  "anthropicTools P opts =
     (let mapped = map_option (map transformTool) (tools opts)
      in case response_model opts of
           None \<Rightarrow> mapped
         | Some rm \<Rightarrow>
             Some ((case mapped of None \<Rightarrow> [] | Some ts \<Rightarrow> ts) @ [toolDefinition P rm]))"

text \<open>
  The request of lines 146-156. Its messages are \<^verbatim>\<open>userMessages\<close>, which line 79 filtered
  from \<^verbatim>\<open>options.messages\<close> before the image branch of lines 83-102 ran.
\<close>

definition userMessages :: "chat_options \<Rightarrow> chat_message list" where
  "userMessages opts = filter (\<lambda>msg. role msg \<noteq> ''system'') (messages opts)"

definition systemMessage :: "chat_options \<Rightarrow> chat_message option" where
  "systemMessage opts = find (\<lambda>msg. role msg = ''system'') (messages opts)"

definition buildRequest :: "provider \<Rightarrow> chat_options \<Rightarrow> anthropic_request" where
  "buildRequest P opts =
     \<lparr>req_model = model opts,
      req_max_tokens = (case max_tokens opts of None \<Rightarrow> 1500 | Some n \<Rightarrow> if n = 0 then 1500 else n),
      req_messages = map (\<lambda>msg. \<lparr>role = role msg, content = content msg\<rparr>) (userMessages opts),
      req_tools = anthropicTools P opts,
      req_system = map_option content (systemMessage opts),
      req_temperature = temperature opts\<rparr>"

text \<open>Lines 83-102: the image branch replaces \<^verbatim>\<open>options.messages\<close> by a longer list.\<close>

definition attachImage :: "provider \<Rightarrow> chat_options \<Rightarrow> chat_options" where
  "attachImage P opts =
     (case image opts of
        None \<Rightarrow> opts
      | Some img \<Rightarrow> opts\<lparr>messages := messages opts @ [screenshotMessage P img]\<rparr>)"

fun firstText :: "response_block list \<Rightarrow> string option" where
  "firstText [] = None"
| "firstText (RText t # bs) = Some t"
| "firstText (RToolUse i n inp # bs) = firstText bs"

fun toolUses :: "response_block list \<Rightarrow> tool_call list" where
  "toolUses [] = []"
| "toolUses (RText t # bs) = toolUses bs"
| "toolUses (RToolUse i n inp # bs) =
     \<lparr>tc_id = i, tc_type = ''function'', tc_name = n, tc_arguments = inp\<rparr> # toolUses bs"

text \<open>\<^verbatim>\<open>response.content.find((c) => c.type === "tool_use")\<close>, read at its \<^verbatim>\<open>input\<close>.\<close>

fun findToolUse :: "response_block list \<Rightarrow> json option" where
  "findToolUse [] = None"
| "findToolUse (RText t # bs) = findToolUse bs"
| "findToolUse (RToolUse i n inp # bs) = Some inp"

definition transformResponse :: "provider \<Rightarrow> nat \<Rightarrow> anthropic_response \<Rightarrow> transformed_response" where
  "transformResponse P n response =
     \<lparr>tr_id = resp_id response,
      tr_object = ''chat.completion'',
      tr_created = date_now P n,
      tr_model = resp_model response,
      tr_role = ''assistant'',
      tr_content =
        (case firstText (resp_content response) of
           None \<Rightarrow> None
         | Some t \<Rightarrow> if t = [] then None else Some t),
      tr_tool_calls = toolUses (resp_content response),
      tr_finish_reason = stop_reason response,
      prompt_tokens = input_tokens response,
      completion_tokens = output_tokens response,
      total_tokens = input_tokens response + output_tokens response\<rparr>"

text \<open>Line 214: \<^verbatim>\<open>!options.retries || options.retries < 5\<close>, and line 217.\<close>

definition mayRetry :: "int option \<Rightarrow> bool" where
  "mayRetry r = (case r of None \<Rightarrow> True | Some n \<Rightarrow> n = 0 \<or> n < 5)"

definition nextRetries :: "int option \<Rightarrow> int option" where
  "nextRetries r = Some ((case r of None \<Rightarrow> 0 | Some n \<Rightarrow> n) + 1)"

definition noToolUseError :: "provider \<Rightarrow> js_error" where
  "noToolUseError P =
     JsError ''Create Chat Completion Failed: No tool use with input in response''
       (new_error_stack P)"

function createChatCompletion ::
  "provider \<Rightarrow> chat_options \<Rightarrow> AnthropicClient \<Rightarrow> AnthropicClient \<times> (js_error + completion)"
where
  "createChatCompletion P options c =
     (let c1 = ac_logger
                 \<lparr>category = Some ''Anthropic'',
                  log_message = ''Creating chat completion with options: '' @
                    stringify_options P (options\<lparr>image := None\<rparr>),
                  level = Some 1\<rparr> c;
          key = cacheOptions options;
          cachedResponse =
            (if ac_enableCaching c1 then cache_get (ac_cache c1) key (ac_requestId c1) else None)
      in case cachedResponse of
           Some cached \<Rightarrow>
             (ac_logger
                \<lparr>category = Some ''llm_cache'',
                 log_message = ''LLM Cache hit - returning cached response'',
                 level = Some 1\<rparr> c1,
              Inr cached)
         | None \<Rightarrow>
             (let c2 = (if ac_enableCaching c1
                        then ac_logger
                               \<lparr>category = Some ''llm_cache'',
                                log_message = ''LLM Cache miss - no cached response found'',
                                level = Some 1\<rparr> c1
                        else c1);
                  request = buildRequest P options;
                  options' = attachImage P options;
                  n = length (ac_sent c2);
                  c3 = c2\<lparr>ac_sent := ac_sent c2 @ [request]\<rparr>
              in case messages_create P n request of
                   Inl e \<Rightarrow> (c3, Inl e)
                 | Inr response \<Rightarrow>
                     (let c4 = ac_logger
                                 \<lparr>category = Some ''Anthropic'',
                                  log_message = ''Response: '' @ stringify_response P response,
                                  level = Some 1\<rparr> c3;
                          transformedResponse = transformResponse P n response;
                          c5 = ac_logger
                                 \<lparr>category = Some ''Anthropic'',
                                  log_message = ''Transformed response: '' @
                                    stringify_transformed P transformedResponse,
                                  level = None\<rparr> c4
                      in case response_model options' of
                           Some rm \<Rightarrow>
                             (case findToolUse (resp_content response) of
                                Some result \<Rightarrow>
                                  ((if ac_enableCaching c5
                                    then c5\<lparr>ac_cache :=
                                           cache_set (ac_cache c5) key (Structured result)
                                             (ac_requestId c5)\<rparr>
                                    else c5),
                                   Inr (Structured result))
                              | None \<Rightarrow>
                                  (if mayRetry (retries options')
                                   then createChatCompletion P
                                          (options'\<lparr>retries := nextRetries (retries options')\<rparr>) c5
                                   else (c5, Inl (noToolUseError P))))
                         | None \<Rightarrow>
                             ((if ac_enableCaching c5
                               then c5\<lparr>ac_cache :=
                                      cache_set (ac_cache c5) key (Completion transformedResponse)
                                        (ac_requestId c5)\<rparr>
                               else c5),
                              Inr (Completion transformedResponse)))))"
  by pat_completeness auto
termination
proof (relation "measure (\<lambda>(P, opts, c). case retries opts of None \<Rightarrow> 6 | Some r \<Rightarrow> nat (5 - r))")
  show "wf (measure (\<lambda>(P, opts, c). case retries opts of None \<Rightarrow> 6 | Some r \<Rightarrow> nat (5 - r)))"
    by simp
next
  fix P :: provider and options :: chat_options and options' :: chat_options
  assume o': "options' = attachImage P options" and r: "mayRetry (retries options')"
  have same: "retries options' = retries options"
    unfolding o' attachImage_def by (simp split: option.split)
  from r show "((P, options'\<lparr>retries := nextRetries (retries options')\<rparr>, c5), P, options, c)
        \<in> measure (\<lambda>(P, opts, c). case retries opts of None \<Rightarrow> 6 | Some r \<Rightarrow> nat (5 - r))"
    for c5 c :: AnthropicClient
    unfolding same by (auto simp: mayRetry_def nextRetries_def split: option.splits)
qed


declare createChatCompletion.simps [simp del]

text \<open>
  The number of provider calls a call starting with retry counter \<open>r\<close> makes when no
  response ever holds a tool-use block: one for each counter value up to 5.
\<close>

definition attempts :: "int option \<Rightarrow> nat" where
  "attempts r = nat (5 - (case r of None \<Rightarrow> 0 | Some n \<Rightarrow> n)) + 1"

text \<open>
  The options of the retry (lines 215-218, after the image message was appended at line
  101), and the cached response the client finds for a call (lines 60-66).
\<close>

definition retryOptions :: "provider \<Rightarrow> chat_options \<Rightarrow> chat_options" where
  "retryOptions P options = (attachImage P options)\<lparr>retries := nextRetries (retries options)\<rparr>"

definition cachedResponse :: "AnthropicClient \<Rightarrow> chat_options \<Rightarrow> completion option" where
  "cachedResponse c options =
     (if ac_enableCaching c then cache_get (ac_cache c) (cacheOptions options) (ac_requestId c)
      else None)"

subsection \<open>A sample client\<close>

definition textResponse :: anthropic_response where
  "textResponse =
     \<lparr>resp_id = ''msg_01'',
      resp_model = ''claude-3-5-sonnet-20240620'',
      resp_content = [RText ''The search button is element 7.''],
      stop_reason = Some ''end_turn'',
      input_tokens = 120,
      output_tokens = 9\<rparr>"

definition toolResponse :: anthropic_response where
  "toolResponse =
     \<lparr>resp_id = ''msg_02'',
      resp_model = ''claude-3-5-sonnet-20240620'',
      resp_content = [RText ''Extracting.'', RToolUse ''toolu_01'' ''print_extracted_data'' ''{title: Search}''],
      stop_reason = Some ''tool_use'',
      input_tokens = 120,
      output_tokens = 30\<rparr>"

definition demoProvider :: provider where
  "demoProvider =
     \<lparr>messages_create = (\<lambda>n q. Inr textResponse),
      zodToJsonSchema =
        (\<lambda>schema. \<lparr>definitions_MySchema = None,
                     top_level = \<lparr>properties = Some schema, required = None\<rparr>\<rparr>),
      toBase64 = (\<lambda>bytes. ''/9j/''),
      date_now = (\<lambda>n. 1700000000000 + n),
      stringify_options = model,
      stringify_response = resp_id,
      stringify_transformed = tr_id,
      new_error_stack = ''at AnthropicClient.createChatCompletion''\<rparr>"

definition demoOptions :: chat_options where
  "demoOptions =
     \<lparr>model = ''claude-3-5-sonnet-20240620'',
      messages =
        [\<lparr>role = ''system'', content = Text ''You find elements on a page.''\<rparr>,
         \<lparr>role = ''user'', content = Text ''find the search button''\<rparr>],
      temperature = Some (1 / 10),
      image = Some \<lparr>buffer = [255, 216, 255], img_description = Some ''the annotated page''\<rparr>,
      response_model = None,
      tools = None,
      max_tokens = None,
      retries = None\<rparr>"

definition demoClient :: AnthropicClient where
  "demoClient =
     \<lparr>ac_enableCaching = False,
      ac_requestId = ''k3x9q0'',
      ac_cache = [],
      ac_logged = [],
      ac_sent = []\<rparr>"

section \<open>The orchestrator (lib/index.ts)\<close>

text \<open>
  The methods of class \<^verbatim>\<open>Stagehand\<close>. A private method \<^verbatim>\<open>_m\<close> is \<open>private_m\<close> here, and the
  public methods \<^verbatim>\<open>act\<close>, \<^verbatim>\<open>extract\<close>, \<^verbatim>\<open>observe\<close> and \<^verbatim>\<open>log\<close> carry the class name as a prefix.
  The functions \<^verbatim>\<open>extract\<close> and \<^verbatim>\<open>observe\<close> of lib/inference, the act handler, the screenshot
  service, \<^verbatim>\<open>modelsWithVision\<close> and \<^verbatim>\<open>generateId\<close> are not among the sources: they are
  parameters, gathered in the record \<open>world\<close>.
\<close>

subsection \<open>Data of the three operations\<close>

datatype use_vision = Fallback | Vision bool

record act_result =
  success :: bool
  message :: string
  action :: string

text \<open>What \<^verbatim>\<open>processDom\<close> and \<^verbatim>\<open>processAllOfDom\<close> return from the page.\<close>

record dom_snapshot =
  outputString :: string
  selectorMap :: "int \<rightharpoonup> string list"
  chunk :: nat
  chunks :: "nat list"

text \<open>
  The response of the extraction inference: \<^verbatim>\<open>{metadata: {progress, completed}, ...output}\<close>.
\<close>

record extraction_response =
  er_output :: json
  er_progress :: string
  er_completed :: bool

text \<open>An element the observation inference returns, and one the caller receives.\<close>

record described =
  description :: string

record observed_element = described +
  elementId :: int

record located_element = described +
  selector :: string

text \<open>The arguments of the three calls that leave the orchestrator.\<close>

record extract_call =
  ex_instruction :: string
  ex_progress :: string
  ex_previouslyExtractedContent :: json
  ex_domElements :: string
  ex_schema :: zod_schema
  ex_modelName :: string
  ex_chunksSeen :: nat
  ex_chunksTotal :: nat
  ex_requestId :: "string option"

record observe_call =
  ob_instruction :: string
  ob_domElements :: string
  ob_modelName :: string
  ob_image :: "nat list option"
  ob_requestId :: "string option"

record act_call =
  act_action :: string
  act_modelName :: "string option"
  act_chunksSeen :: "nat list"
  act_useVision :: use_vision
  act_verifierUseVision :: bool
  act_requestId :: string
  act_variables :: "string \<rightharpoonup> string"
  act_previousSelectors :: "string list"
  act_skipActionCacheForThisStep :: bool
  act_domSettleTimeoutMs :: "js_number option"

text \<open>
  Every call that leaves the orchestrator (to the page, the screenshot service, the
  inference layer, the act handler, the provider's cache) is recorded in order.
\<close>

datatype external_call =
    WaitForSettle js_number
  | StartDomDebug
  | CleanupDebug
  | ProcessDom "nat list"
  | ProcessAllOfDom
  | Screenshot bool
  | InferExtract extract_call
  | InferObserve observe_call
  | ActHandler act_call
  | CleanRequestCache string

text \<open>
  The session state of class \<^verbatim>\<open>Stagehand\<close> that the three operations read or write, the
  cache its \<^verbatim>\<open>llmProvider\<close> holds, the lines its logger received and the calls it made.
  The mirroring of log lines into the Browserbase session (lines 502-543) runs detached
  from the caller and is left out.
\<close>

record Stagehand =
  defaultModelName :: string
  domSettleTimeoutMs :: js_number
  enableCaching :: bool
  debugDom :: bool
  variables :: "string \<rightharpoonup> string"
  observations :: "string \<rightharpoonup> (located_element list \<times> string)"
  llm_cache :: LLMCache
  logged :: "log_line list"
  calls :: "external_call list"

text \<open>
  The three page promises of the settle race: each stays pending, or settles at a time
  (in ms after the race starts), resolved or rejected with a value. \<open>PageFault\<close> is what is
  thrown before the race is set up (by \<^verbatim>\<open>this.page.evaluate\<close> on a session without a page, or
  by one of the three page methods).
\<close>

datatype settle_promise = Pending | Resolves nat | Rejects nat js_error

datatype settle_input = PageFault js_error | Race3 settle_promise settle_promise settle_promise

text \<open>
  The collaborators of the orchestrator. Each answers by the number of calls made before
  it, so the page and the model may answer the same question differently each time. The
  inference layer and the act handler reach the cache and the session through the
  references they hold, so they transform them. The last two fields are the JavaScript
  engine's: the text a template literal prints for a number that is not an integer below
  \<open>10\<^sup>2\<^sup>1\<close>, and the message and the stack of the TypeError raised when the named
  property is read from \<^verbatim>\<open>undefined\<close> or \<^verbatim>\<open>null\<close>.
\<close>

record world =
  settle :: "nat \<Rightarrow> settle_input"
  startDebugFault :: "nat \<Rightarrow> js_error option"
  processDom :: "nat \<Rightarrow> nat list \<Rightarrow> js_error + dom_snapshot"
  processAllOfDom :: "nat \<Rightarrow> js_error + dom_snapshot"
  getAnnotatedScreenshot :: "nat \<Rightarrow> bool \<Rightarrow> js_error + nat list"
  inference_extract ::
    "nat \<Rightarrow> extract_call \<Rightarrow> LLMCache \<Rightarrow> LLMCache \<times> (js_error + extraction_response)"
  inference_observe ::
    "nat \<Rightarrow> observe_call \<Rightarrow> LLMCache \<Rightarrow> LLMCache \<times> (js_error + observed_element list)"
  actHandler_act :: "nat \<Rightarrow> act_call \<Rightarrow> Stagehand \<Rightarrow> Stagehand \<times> (js_error + act_result)"
  modelsWithVision :: "string list"
  generateId :: "string \<Rightarrow> string"
  randomRequestId :: "nat \<Rightarrow> string"
  stringify_extraction :: "extraction_response \<Rightarrow> string"
  stringify_elements :: "located_element list \<Rightarrow> string"
  numberText :: "rat \<Rightarrow> string"
  readFault :: "string \<Rightarrow> string \<times> string"

subsection \<open>Logging and the DOM-settle wait\<close>

text \<open>
  Lines 475-500: \<^verbatim>\<open>logObj.level = logObj.level || 1\<close>, then the line goes to the sink (the
  external logger or the console), which is taken to accept every line.
\<close>

definition Stagehand_log :: "log_line \<Rightarrow> Stagehand \<Rightarrow> Stagehand" where
  "Stagehand_log l s =
     s\<lparr>logged := logged s @
          [l\<lparr>level := Some (case level l of None \<Rightarrow> 1 | Some n \<Rightarrow> if n = 0 then 1 else n)\<rparr>]\<rparr>"

definition called :: "external_call \<Rightarrow> Stagehand \<Rightarrow> Stagehand" where
  "called c s = s\<lparr>calls := calls s @ [c]\<rparr>"

definition newline :: string where
  "newline = [CHR 0x0A]"

text \<open>
  The TypeError the engine raises when a property is read from \<^verbatim>\<open>undefined\<close> or \<^verbatim>\<open>null\<close>:
  an \<^verbatim>\<open>Error\<close> object, whose message and stack for the property read are the world's
  \<open>readFault\<close>.
\<close>

definition typeError :: "world \<Rightarrow> string \<Rightarrow> js_error" where
  "typeError w property = JsError (fst (readFault w property)) (snd (readFault w property))"

text \<open>
  The text the catch handlers print of what they caught: \<^verbatim>\<open>e.message\<close>, a line break,
  \<^verbatim>\<open>Trace: \<close> and \<^verbatim>\<open>e.stack\<close>; \<open>None\<close> when the read of \<^verbatim>\<open>e.message\<close> faults.
\<close>

definition errorTrace :: "js_error \<Rightarrow> string option" where
  "errorTrace e =
     (case e of
        JsError m st \<Rightarrow> Some (m @ newline @ ''Trace: '' @ st)
      | JsNullish \<Rightarrow> None)"

text \<open>
  The first statement of every catch handler of the class: a log line whose message is a
  prefix and the text above. The message is built before the logger is called, so on
  \<^verbatim>\<open>undefined\<close> and \<^verbatim>\<open>null\<close> the handler raises the TypeError and logs nothing.
\<close>

definition logCaught ::
  "world \<Rightarrow> string \<Rightarrow> string \<Rightarrow> nat option \<Rightarrow> js_error \<Rightarrow> Stagehand \<Rightarrow>
   Stagehand \<times> (js_error + unit)"
where
  "logCaught w cat prefix lvl e s =
     (case errorTrace e of
        None \<Rightarrow> (s, Inl (typeError w ''message''))
      | Some trace \<Rightarrow>
          (Stagehand_log \<lparr>category = Some cat, log_message = prefix @ trace, level = lvl\<rparr> s,
           Inr ()))"

fun settle_time :: "settle_promise \<Rightarrow> nat option" where
  "settle_time Pending = None"
| "settle_time (Resolves t) = Some t"
| "settle_time (Rejects t e) = Some t"

text \<open>\<^verbatim>\<open>Promise.race\<close> over the page promises: the earliest to settle, the leftmost of a tie.\<close>

fun earliest :: "settle_promise list \<Rightarrow> settle_promise" where
  "earliest [] = Pending"
| "earliest (p # ps) =
     (case settle_time p of
        None \<Rightarrow> earliest ps
      | Some t \<Rightarrow>
          (case settle_time (earliest ps) of
             None \<Rightarrow> p
           | Some u \<Rightarrow> if t \<le> u then p else earliest ps))"

definition timeoutLine :: "world \<Rightarrow> js_number \<Rightarrow> log_line" where
  "timeoutLine w timeout =
     \<lparr>category = Some ''dom'',
      log_message = ''DOM settle timeout of '' @ show_number (numberText w) timeout @
        ''ms exceeded, continuing anyway'',
      level = Some 1\<rparr>"

text \<open>
  How the race of lines 562-578 ends. The timer is its fourth promise. It is armed before
  the page promises are made and fires \<open>timerDelay timeout\<close> ms later, so a page promise
  wins the race only when it settles before that time.
\<close>

datatype race_end = TimerFired | PageResolved | PageRejected js_error

definition raceEnd :: "settle_promise \<Rightarrow> settle_promise \<Rightarrow> settle_promise \<Rightarrow> nat \<Rightarrow> race_end" where
  "raceEnd p1 p2 p3 delay =
     (case earliest [p1, p2, p3] of
        Pending \<Rightarrow> TimerFired
      | Resolves t \<Rightarrow> if t < delay then PageResolved else TimerFired
      | Rejects t e \<Rightarrow> if t < delay then PageRejected e else TimerFired)"

text \<open>
  The body of the outer \<^verbatim>\<open>try\<close> (lines 547-581). When the timer fires it logs its line and
  resolves the race; when a page promise wins, the \<^verbatim>\<open>finally\<close> clears the timer.
\<close>

definition settleRace :: "world \<Rightarrow> js_number \<Rightarrow> Stagehand \<Rightarrow> Stagehand \<times> (js_error + unit)" where
  "settleRace w timeout s =
     (let n = length (calls s);
          s1 = called (WaitForSettle timeout) s
      in case settle w n of
           PageFault e \<Rightarrow> (s1, Inl e)
         | Race3 p1 p2 p3 \<Rightarrow>
             (case raceEnd p1 p2 p3 (timerDelay timeout) of
                TimerFired \<Rightarrow> (Stagehand_log (timeoutLine w timeout) s1, Inr ())
              | PageResolved \<Rightarrow> (s1, Inr ())
              | PageRejected e \<Rightarrow> (s1, Inl e)))"

text \<open>Lines 545-589: the race inside the outer \<^verbatim>\<open>try\<close>, and its catch handler.\<close>

definition private_waitForSettledDom ::
  "world \<Rightarrow> js_number option \<Rightarrow> Stagehand \<Rightarrow> Stagehand \<times> (js_error + unit)"
where
  "private_waitForSettledDom w timeoutMs s =
     (let timeout = (case timeoutMs of None \<Rightarrow> domSettleTimeoutMs s | Some t \<Rightarrow> t)
      in case settleRace w timeout s of
           (s', Inl e) \<Rightarrow> logCaught w ''dom'' ''Error in waitForSettledDom: '' (Some 1) e s'
         | (s', Inr u) \<Rightarrow> (s', Inr u))"

text \<open>
  Lines 591-619. Rejections of the page's \<^verbatim>\<open>evaluate\<close> are swallowed by \<^verbatim>\<open>.catch(() => {})\<close>;
  what is thrown before the promise exists goes to the catch handler.
\<close>

definition startDomDebug :: "world \<Rightarrow> Stagehand \<Rightarrow> Stagehand \<times> (js_error + unit)" where
  "startDomDebug w s =
     (let n = length (calls s);
          s1 = called StartDomDebug s
      in case startDebugFault w n of
           None \<Rightarrow> (s1, Inr ())
         | Some e \<Rightarrow> logCaught w ''dom'' ''Error in startDomDebug: '' (Some 1) e s1)"

definition cleanupDomDebug :: "Stagehand \<Rightarrow> Stagehand" where
  "cleanupDomDebug s = (if debugDom s then called CleanupDebug s else s)"

definition private_recordObservation ::
  "world \<Rightarrow> string \<Rightarrow> located_element list \<Rightarrow> Stagehand \<Rightarrow> Stagehand"
where
  "private_recordObservation w instruction result s =
     s\<lparr>observations := (observations s)(generateId w instruction \<mapsto> (result, instruction))\<rparr>"

text \<open>\<^verbatim>\<open>modelName || this.defaultModelName\<close> and \<^verbatim>\<open>modelName ?? this.defaultModelName\<close>.\<close>

definition modelOr :: "string option \<Rightarrow> string \<Rightarrow> string" where
  "modelOr modelName dflt = (case modelName of None \<Rightarrow> dflt | Some m \<Rightarrow> if m = [] then dflt else m)"


subsection \<open>Extraction\<close>

record extract_params =
  p_instruction :: string
  p_schema :: zod_schema
  p_progress :: "string option"
  p_content :: "json option"
  p_chunksSeen :: "nat list option"
  p_modelName :: "string option"
  p_requestId :: "string option"
  p_domSettleTimeoutMs :: "js_number option"

definition quote :: string where
  "quote = [CHR 0x27]"

text \<open>
  Lines 634-724. The recursion has no bound of its own, so the function is partial:
  \<open>None\<close> is a call that never returns. \<^verbatim>\<open>chunksSeen.push(chunk)\<close> (line 697) changes the
  array in place and the recursive call is handed the same array, so a call leaves the
  array with every chunk pushed during it: the second component of the result is the
  array as the call leaves it.
\<close>

partial_function (option) private_extract ::
  "world \<Rightarrow> extract_params \<Rightarrow> Stagehand \<Rightarrow> (Stagehand \<times> nat list \<times> (js_error + json)) option"
where
  "private_extract w p s =
     (let progress = (case p_progress p of None \<Rightarrow> [] | Some x \<Rightarrow> x);
          content0 = (case p_content p of None \<Rightarrow> ''{}'' | Some x \<Rightarrow> x);
          chunksSeen = (case p_chunksSeen p of None \<Rightarrow> [] | Some x \<Rightarrow> x);
          s1 = Stagehand_log
                 \<lparr>category = Some ''extraction'',
                  log_message = ''starting extraction '' @ quote @ p_instruction p @ quote,
                  level = Some 1\<rparr> s
      in case private_waitForSettledDom w (p_domSettleTimeoutMs p) s1 of
           (s2, Inl e) \<Rightarrow> Some (s2, chunksSeen, Inl e)
         | (s2, Inr u) \<Rightarrow>
         (case startDomDebug w s2 of
           (s3, Inl e) \<Rightarrow> Some (s3, chunksSeen, Inl e)
         | (s3, Inr u) \<Rightarrow>
             (let n = length (calls s3);
                  s4 = called (ProcessDom chunksSeen) s3
              in case processDom w n chunksSeen of
                   Inl e \<Rightarrow> Some (s4, chunksSeen, Inl e)
                 | Inr snapshot \<Rightarrow>
                     (let s5 = Stagehand_log
                                 \<lparr>category = Some ''extraction'',
                                  log_message =
                                    ''received output from processDom. Current chunk index: '' @
                                    digits (chunk snapshot) @ '', Number of chunks left: '' @
                                    show_int (int (length (chunks snapshot)) - int (length chunksSeen)),
                                  level = Some 1\<rparr> s4;
                          request =
                            \<lparr>ex_instruction = p_instruction p,
                             ex_progress = progress,
                             ex_previouslyExtractedContent = content0,
                             ex_domElements = outputString snapshot,
                             ex_schema = p_schema p,
                             ex_modelName = modelOr (p_modelName p) (defaultModelName s5),
                             ex_chunksSeen = length chunksSeen,
                             ex_chunksTotal = length (chunks snapshot),
                             ex_requestId = p_requestId p\<rparr>;
                          m = length (calls s5);
                          s6 = called (InferExtract request) s5;
                          answer = inference_extract w m request (llm_cache s6);
                          s7 = s6\<lparr>llm_cache := fst answer\<rparr>
                      in case snd answer of
                           Inl e \<Rightarrow> Some (s7, chunksSeen, Inl e)
                         | Inr extractionResponse \<Rightarrow>
                             (let s8 = cleanupDomDebug s7;
                                  s9 = Stagehand_log
                                         \<lparr>category = Some ''extraction'',
                                          log_message = ''received extraction response: '' @
                                            stringify_extraction w extractionResponse,
                                          level = Some 1\<rparr> s8;
                                  chunksSeen' = chunksSeen @ [chunk snapshot]
                              in if er_completed extractionResponse \<or>
                                    length chunksSeen' = length (chunks snapshot)
                                 then Some
                                   (Stagehand_log
                                      \<lparr>category = Some ''extraction'',
                                       log_message = ''response: '' @
                                         stringify_extraction w extractionResponse,
                                       level = Some 1\<rparr> s9,
                                    chunksSeen',
                                    Inr (er_output extractionResponse))
                                 else
                                   (case private_waitForSettledDom w (p_domSettleTimeoutMs p)
                                           (Stagehand_log
                                              \<lparr>category = Some ''extraction'',
                                               log_message = ''continuing extraction, progress: '' @
                                                 quote @ er_progress extractionResponse @ quote,
                                               level = Some 1\<rparr> s9) of
                                      (s10, Inl e) \<Rightarrow> Some (s10, chunksSeen', Inl e)
                                    | (s10, Inr u) \<Rightarrow>
                                        private_extract w
                                          \<lparr>p_instruction = p_instruction p,
                                           p_schema = p_schema p,
                                           p_progress = Some (er_progress extractionResponse),
                                           p_content = Some (er_output extractionResponse),
                                           p_chunksSeen = Some chunksSeen',
                                           p_modelName = p_modelName p,
                                           p_requestId = None,
                                           p_domSettleTimeoutMs = p_domSettleTimeoutMs p\<rparr>
                                          s10))))))"


subsection \<open>Observation\<close>






definition skipVisionLine :: "string \<Rightarrow> log_line" where
  "skipVisionLine m =
     \<lparr>category = Some ''observation'',
      log_message = m @ '' does not support vision. Skipping vision processing.'',
      level = Some 1\<rparr>"



subsection \<open>The public operations\<close>




text \<open>
  Modelled from the spec: \<^verbatim>\<open>LLMProvider.cleanRequestCache\<close> (lib/llm/LLMProvider.ts) is not
  among the sources. The spec has cache entries "deleted by requestID" for "targeted
  invalidation": the provider deletes from its cache the entries of the request id.
\<close>

definition cleanRequestCache :: "string \<Rightarrow> Stagehand \<Rightarrow> Stagehand" where
  "cleanRequestCache requestId s =
     (called (CleanRequestCache requestId) s)
       \<lparr>llm_cache := deleteCacheForRequestId (llm_cache s) requestId\<rparr>"

text \<open>
  The \<^verbatim>\<open>.catch\<close> handlers of lines 897-908 and 933-944: the log line, then the clean-up of
  the cache, then \<^verbatim>\<open>throw e\<close>. When the log line cannot be built, the handler ends there
  with the TypeError.
\<close>

definition rethrowAfterCleanup ::
  "world \<Rightarrow> string \<Rightarrow> string \<Rightarrow> string \<Rightarrow> js_error \<Rightarrow> Stagehand \<Rightarrow>
   Stagehand \<times> (js_error + 'a)"
where
  "rethrowAfterCleanup w cat prefix requestId e s =
     (case logCaught w cat prefix None e s of
        (s1, Inl fault) \<Rightarrow> (s1, Inl fault)
      | (s1, Inr u) \<Rightarrow>
          (let s2 = (if enableCaching s1 then cleanRequestCache requestId s1 else s1)
           in (s2, Inl e)))"

text \<open>The lines logged when \<^verbatim>\<open>extract\<close> and \<^verbatim>\<open>observe\<close> start (lines 886-889, 919-922).\<close>

definition extractBanner :: "string \<Rightarrow> string \<Rightarrow> log_line" where
  "extractBanner instruction requestId =
     \<lparr>category = Some ''extract'',
      log_message = ''Running extract with instruction: '' @ instruction @
        '', requestId: '' @ requestId,
      level = None\<rparr>"



text \<open>Lines 873-909. First the argument of the call of line 891.\<close>

definition initialParams ::
  "string \<Rightarrow> zod_schema \<Rightarrow> string option \<Rightarrow> string \<Rightarrow> js_number option \<Rightarrow> extract_params"
where
  "initialParams instruction schema modelName requestId timeoutMs =
     \<lparr>p_instruction = instruction,
      p_schema = schema,
      p_progress = None,
      p_content = None,
      p_chunksSeen = None,
      p_modelName = modelName,
      p_requestId = Some requestId,
      p_domSettleTimeoutMs = timeoutMs\<rparr>"

definition Stagehand_extract ::
  "world \<Rightarrow> string \<Rightarrow> zod_schema \<Rightarrow> string option \<Rightarrow> js_number option \<Rightarrow> Stagehand \<Rightarrow>
   (Stagehand \<times> (js_error + json)) option"
where
  "Stagehand_extract w instruction schema modelName timeoutMs s =
     (let requestId = randomRequestId w (length (calls s));
          s1 = Stagehand_log (extractBanner instruction requestId) s
      in case private_extract w
                (initialParams instruction schema modelName requestId timeoutMs) s1 of
           None \<Rightarrow> None
         | Some (s2, seen, Inr v) \<Rightarrow> Some (s2, Inr v)
         | Some (s2, seen, Inl e) \<Rightarrow>
             Some (rethrowAfterCleanup w ''extract'' ''Internal error: Error extracting: ''
                     requestId e s2))"




section \<open>Reading the record of calls\<close>

text \<open>The calls an operation made: those recorded after the state it started from.\<close>

definition newCalls :: "Stagehand \<Rightarrow> Stagehand \<Rightarrow> external_call list" where
  "newCalls s s' = drop (length (calls s)) (calls s')"

fun inferences :: "external_call list \<Rightarrow> extract_call list" where
  "inferences [] = []"
| "inferences (InferExtract c # cs) = c # inferences cs"
| "inferences (c # cs) = inferences cs"

fun domReads :: "external_call list \<Rightarrow> nat list list" where
  "domReads [] = []"
| "domReads (ProcessDom seen # cs) = seen # domReads cs"
| "domReads (c # cs) = domReads cs"

fun observeCalls :: "external_call list \<Rightarrow> observe_call list" where
  "observeCalls [] = []"
| "observeCalls (InferObserve c # cs) = c # observeCalls cs"
| "observeCalls (c # cs) = observeCalls cs"

fun screenshots :: "external_call list \<Rightarrow> bool list" where
  "screenshots [] = []"
| "screenshots (Screenshot fullPage # cs) = fullPage # screenshots cs"
| "screenshots (c # cs) = screenshots cs"

text \<open>
  The calls of one round of \<^verbatim>\<open>_extract\<close> that is followed by another: the wait, the start of
  the debug overlay, the DOM read, the inference, the clean-up of the overlay when it is
  on, and the wait before the recursive call. The DOM read is the third of them.
\<close>

definition roundLength :: "Stagehand \<Rightarrow> nat" where
  "roundLength s = (if debugDom s then 6 else 5)"

text \<open>
  Whether a promise of the settle race rejects with \<^verbatim>\<open>undefined\<close> or \<^verbatim>\<open>null\<close>, and whether
  the page hands such a value to the race or throws it while the race is set up.
\<close>

fun nullishPromise :: "settle_promise \<Rightarrow> bool" where
  "nullishPromise (Rejects t e) = (e = JsNullish)"
| "nullishPromise p = False"

fun nullishSettle :: "settle_input \<Rightarrow> bool" where
  "nullishSettle (PageFault e) = (e = JsNullish)"
| "nullishSettle (Race3 p1 p2 p3) = (nullishPromise p1 \<or> nullishPromise p2 \<or> nullishPromise p3)"


section \<open>A sample session\<close>

text \<open>
  A page of two chunks with one button, a model that never reports completion, and an act
  handler whose promise rejects. The page hands out the chunk after the highest one seen.
  Of the numbers that are no small integers, the sample engine knows only the text of
  \<open>10\<^sup>2\<^sup>1\<close>.
\<close>

definition demoSnapshot :: "nat list \<Rightarrow> dom_snapshot" where
  "demoSnapshot seen =
     \<lparr>outputString = ''7:<button>Search</button>'',
      selectorMap = [7 \<mapsto> [''//button[1]'']],
      chunk = (if seen = [] then 0 else Suc (Max (set seen))),
      chunks = [0, 1]\<rparr>"

definition demoWorld :: world where
  "demoWorld =
     \<lparr>settle = (\<lambda>n. Race3 (Resolves 12) Pending (Resolves 40)),
      startDebugFault = (\<lambda>n. None),
      processDom = (\<lambda>n seen. Inr (demoSnapshot seen)),
      processAllOfDom = (\<lambda>n. Inr (demoSnapshot [])),
      getAnnotatedScreenshot = (\<lambda>n fullPage. Inr [255, 216, 255]),
      inference_extract =
        (\<lambda>n q entries.
           (entries,
            Inr \<lparr>er_output = ''{title: Search}'', er_progress = ''found title'',
                 er_completed = False\<rparr>)),
      inference_observe =
        (\<lambda>n q entries. (entries, Inr [\<lparr>description = ''the search button'', elementId = 7\<rparr>])),
      actHandler_act = (\<lambda>n q s. (s, Inl (JsError ''locator timed out'' ''at click''))),
      modelsWithVision = [''gpt-4o'', ''gpt-4o-mini'', ''claude-3-5-sonnet-20240620''],
      generateId = (\<lambda>instruction. instruction),
      randomRequestId = (\<lambda>n. ''k3x9q'' @ digits n),
      stringify_extraction = er_output,
      stringify_elements = (\<lambda>xs. concat (map selector xs)),
      numberText = (\<lambda>r. ''1e+21''),
      readFault =
        (\<lambda>property.
           (''Cannot read properties of undefined (reading '' @ quote @ property @ quote @ '')'',
            ''TypeError: at Stagehand''))\<rparr>"

definition demoSession :: Stagehand where
  "demoSession =
     \<lparr>defaultModelName = ''gpt-4o'',
      domSettleTimeoutMs = Num 30000,
      enableCaching = True,
      debugDom = False,
      variables = Map.empty,
      observations = Map.empty,
      llm_cache = [],
      logged = [],
      calls = []\<rparr>"







section \<open>Properties\<close>

subsection \<open>Bookkeeping of the session state\<close>

lemma calls_log [simp]: "calls (Stagehand_log l s) = calls s"
  by (simp add: Stagehand_log_def)

lemma logged_log [simp]:
  "logged (Stagehand_log l s) =
     logged s @ [l\<lparr>level := Some (case level l of None \<Rightarrow> 1 | Some n \<Rightarrow> if n = 0 then 1 else n)\<rparr>]"
  by (simp add: Stagehand_log_def)

lemma calls_called [simp]: "calls (called c s) = calls s @ [c]"
  by (simp add: called_def)

lemma logged_called [simp]: "logged (called c s) = logged s"
  by (simp add: called_def)

lemma log_fields [simp]:
  "llm_cache (Stagehand_log l s) = llm_cache s"
  "defaultModelName (Stagehand_log l s) = defaultModelName s"
  "debugDom (Stagehand_log l s) = debugDom s"
  "enableCaching (Stagehand_log l s) = enableCaching s"
  "domSettleTimeoutMs (Stagehand_log l s) = domSettleTimeoutMs s"
  by (simp_all add: Stagehand_log_def)

lemma called_fields [simp]:
  "llm_cache (called c s) = llm_cache s"
  "defaultModelName (called c s) = defaultModelName s"
  "debugDom (called c s) = debugDom s"
  "enableCaching (called c s) = enableCaching s"
  "domSettleTimeoutMs (called c s) = domSettleTimeoutMs s"
  by (simp_all add: called_def)

lemma digits_zero: "digits 0 = ''0''"
  by code_simp

text \<open>The catch handlers: an error object is logged, \<^verbatim>\<open>undefined\<close> makes the handler fault.\<close>

lemma logCaught_error [simp]:
  "logCaught w cat prefix lvl (JsError m st) s =
     (Stagehand_log
        \<lparr>category = Some cat, log_message = prefix @ m @ newline @ ''Trace: '' @ st, level = lvl\<rparr> s,
      Inr ())"
  by (simp add: logCaught_def errorTrace_def)

lemma logCaught_nullish [simp]:
  "logCaught w cat prefix lvl JsNullish s = (s, Inl (typeError w ''message''))"
  by (simp add: logCaught_def errorTrace_def)

lemma logCaught_fields [simp]:
  "calls (fst (logCaught w cat prefix lvl e s)) = calls s"
  "llm_cache (fst (logCaught w cat prefix lvl e s)) = llm_cache s"
  "defaultModelName (fst (logCaught w cat prefix lvl e s)) = defaultModelName s"
  "debugDom (fst (logCaught w cat prefix lvl e s)) = debugDom s"
  "enableCaching (fst (logCaught w cat prefix lvl e s)) = enableCaching s"
  "domSettleTimeoutMs (fst (logCaught w cat prefix lvl e s)) = domSettleTimeoutMs s"
  by (cases e; simp)+

lemma logCaught_resolves [simp]:
  "(snd (logCaught w cat prefix lvl e s) = Inr ()) = (e \<noteq> JsNullish)"
  by (cases e) simp_all

subsection \<open>The public act operation\<close>





subsection \<open>The DOM-settle wait\<close>

lemma settleRace_fields [simp]:
  "calls (fst (settleRace w t s)) = calls s @ [WaitForSettle t]"
  "llm_cache (fst (settleRace w t s)) = llm_cache s"
  "defaultModelName (fst (settleRace w t s)) = defaultModelName s"
  "debugDom (fst (settleRace w t s)) = debugDom s"
  "enableCaching (fst (settleRace w t s)) = enableCaching s"
  "domSettleTimeoutMs (fst (settleRace w t s)) = domSettleTimeoutMs s"
  by (simp_all add: settleRace_def Let_def split: settle_input.split race_end.split)

lemma wait_unfold:
  "private_waitForSettledDom w t s =
     (case snd (settleRace w (case t of None \<Rightarrow> domSettleTimeoutMs s | Some u \<Rightarrow> u) s) of
        Inl e \<Rightarrow> logCaught w ''dom'' ''Error in waitForSettledDom: '' (Some 1) e
                   (fst (settleRace w (case t of None \<Rightarrow> domSettleTimeoutMs s | Some u \<Rightarrow> u) s))
      | Inr u \<Rightarrow> (fst (settleRace w (case t of None \<Rightarrow> domSettleTimeoutMs s | Some u \<Rightarrow> u) s), Inr ()))"
  by (simp add: private_waitForSettledDom_def Let_def split: prod.split sum.split)

lemma wait_fields [simp]:
  "calls (fst (private_waitForSettledDom w t s)) =
     calls s @ [WaitForSettle (case t of None \<Rightarrow> domSettleTimeoutMs s | Some u \<Rightarrow> u)]"
  "llm_cache (fst (private_waitForSettledDom w t s)) = llm_cache s"
  "defaultModelName (fst (private_waitForSettledDom w t s)) = defaultModelName s"
  "debugDom (fst (private_waitForSettledDom w t s)) = debugDom s"
  "enableCaching (fst (private_waitForSettledDom w t s)) = enableCaching s"
  "domSettleTimeoutMs (fst (private_waitForSettledDom w t s)) = domSettleTimeoutMs s"
  by (simp_all add: wait_unfold split: sum.split)

lemma earliest_member: "earliest ps = Pending \<or> earliest ps \<in> set ps"
  by (induction ps) (auto split: option.split)

lemma raceEnd_rejected:
  assumes "raceEnd p1 p2 p3 d = PageRejected e"
  shows "\<exists>u. Rejects u e \<in> {p1, p2, p3}"
proof -
  from assms obtain u where "earliest [p1, p2, p3] = Rejects u e"
    by (auto simp add: raceEnd_def split: settle_promise.splits if_splits)
  with earliest_member [of "[p1, p2, p3]"] show ?thesis by auto
qed

lemma settleRace_rejects:
  assumes "snd (settleRace w t s) = Inl e"
  shows "e = JsNullish \<longrightarrow> nullishSettle (settle w (length (calls s)))"
proof (cases "settle w (length (calls s))")
  case (PageFault x)
  with assms show ?thesis by (simp add: settleRace_def Let_def)
next
  case (Race3 p1 p2 p3)
  with assms have "raceEnd p1 p2 p3 (timerDelay t) = PageRejected e"
    by (simp add: settleRace_def Let_def split: race_end.splits)
  from raceEnd_rejected [OF this] Race3 show ?thesis by auto
qed

text \<open>The wait resolves when the page hands nothing that is \<^verbatim>\<open>undefined\<close> or \<^verbatim>\<open>null\<close>.\<close>

lemma wait_resolves:
  assumes "\<not> nullishSettle (settle w (length (calls s)))"
  shows "snd (private_waitForSettledDom w t s) = Inr ()"
proof (cases "snd (settleRace w (case t of None \<Rightarrow> domSettleTimeoutMs s | Some u \<Rightarrow> u) s)")
  case (Inl e)
  with settleRace_rejects [OF Inl] assms show ?thesis
    by (simp add: wait_unfold)
next
  case (Inr u)
  then show ?thesis by (simp add: wait_unfold)
qed

text \<open>A caller that awaits a wait that resolves runs its continuation.\<close>

lemma wait_case:
  assumes "snd (private_waitForSettledDom w t s) = Inr ()"
  shows "(case private_waitForSettledDom w t s of (s', Inl e) \<Rightarrow> f s' e | (s', Inr u) \<Rightarrow> g s' u) =
     g (fst (private_waitForSettledDom w t s)) ()"
  using assms by (cases "private_waitForSettledDom w t s") simp











subsection \<open>The Anthropic client\<close>

lemma attachImage_keeps [simp]:
  "retries (attachImage P options) = retries options"
  "response_model (attachImage P options) = response_model options"
  "model (attachImage P options) = model options"
  by (simp_all add: attachImage_def split: option.split)

lemma retryOptions_keeps [simp]:
  "retries (retryOptions P options) = nextRetries (retries options)"
  "response_model (retryOptions P options) = response_model options"
  "model (retryOptions P options) = model options"
  by (simp_all add: retryOptions_def)

lemma cache_get_empty [simp]: "cache_get [] key rid = None"
  by (simp add: cache_get_def)

lemma cachedResponse_cong:
  assumes "ac_enableCaching c' = ac_enableCaching c" and "ac_cache c' = ac_cache c"
    and "ac_requestId c' = ac_requestId c"
  shows "cachedResponse c' options = cachedResponse c options"
  using assms by (simp add: cachedResponse_def)

text \<open>
  One round of the retry loop: a response without a tool-use block, on a call with a
  response schema that no cached response answers.
\<close>

lemma retry_step:
  assumes rm: "response_model options = Some rm"
    and miss: "cachedResponse c options = None"
    and resp: "messages_create P (length (ac_sent c)) (buildRequest P options) = Inr resp"
    and none: "findToolUse (resp_content resp) = None"
  shows "\<exists>c'. createChatCompletion P options c =
            (if mayRetry (retries options)
             then createChatCompletion P (retryOptions P options) c'
             else (c', Inl (noToolUseError P))) \<and>
          ac_sent c' = ac_sent c @ [buildRequest P options] \<and>
          ac_cache c' = ac_cache c \<and>
          ac_enableCaching c' = ac_enableCaching c \<and>
          ac_requestId c' = ac_requestId c"
proof (cases "ac_enableCaching c")
  case True
  with miss have get: "cache_get (ac_cache c) (cacheOptions options) (ac_requestId c) = None"
    by (simp add: cachedResponse_def)
  show ?thesis
    apply (subst createChatCompletion.simps)
    apply (simp add: Let_def rm True get resp none ac_logger_def retryOptions_def)
    apply (intro conjI impI)
     apply (rule exI, rule conjI, rule refl, simp add: True)+
    done
next
  case False
  show ?thesis
    apply (subst createChatCompletion.simps)
    apply (simp add: Let_def rm False resp none ac_logger_def retryOptions_def)
    apply (intro conjI impI)
     apply (rule exI, rule conjI, rule refl, simp add: False)+
    done
qed

lemma attempts_next:
  "mayRetry r \<Longrightarrow> attempts r = Suc (attempts (nextRetries r))"
  by (auto simp add: mayRetry_def attempts_def nextRetries_def split: option.splits)

lemma attempts_last:
  "\<not> mayRetry r \<Longrightarrow> attempts r = 1"
  by (auto simp add: mayRetry_def attempts_def split: option.splits)

lemma attempts_positive: "0 < attempts r"
  by (simp add: attempts_def)

text \<open>
  A call either sends at most one request and returns, or sends one request and goes on
  as the retry.
\<close>

lemma createChatCompletion_cases:
  obtains
    (returns) "length (ac_sent (fst (createChatCompletion P options c))) \<le> Suc (length (ac_sent c))"
  | (retries) c' where "mayRetry (retries options)"
      and "createChatCompletion P options c = createChatCompletion P (retryOptions P options) c'"
      and "length (ac_sent c') = Suc (length (ac_sent c))"
proof (cases "cachedResponse c options")
  case (Some cached)
  then have "ac_enableCaching c"
    and "cache_get (ac_cache c) (cacheOptions options) (ac_requestId c) = Some cached"
    by (simp_all add: cachedResponse_def split: if_splits)
  then have "length (ac_sent (fst (createChatCompletion P options c))) \<le> Suc (length (ac_sent c))"
    by (subst createChatCompletion.simps) (simp add: Let_def ac_logger_def)
  then show ?thesis by (rule returns)
next
  case None
  then have miss: "ac_enableCaching c \<longrightarrow>
      cache_get (ac_cache c) (cacheOptions options) (ac_requestId c) = None"
    by (simp add: cachedResponse_def split: if_splits)
  show ?thesis
  proof (cases "messages_create P (length (ac_sent c)) (buildRequest P options)")
    case (Inl e)
    with miss
    have "length (ac_sent (fst (createChatCompletion P options c))) \<le> Suc (length (ac_sent c))"
      by (subst createChatCompletion.simps) (simp add: Let_def ac_logger_def)
    then show ?thesis by (rule returns)
  next
    case (Inr resp)
    show ?thesis
    proof (cases "response_model options")
      case rm: None
      with miss Inr
      have "length (ac_sent (fst (createChatCompletion P options c))) \<le> Suc (length (ac_sent c))"
        by (subst createChatCompletion.simps) (simp add: Let_def ac_logger_def)
      then show ?thesis by (rule returns)
    next
      case rm: (Some rm)
      show ?thesis
      proof (cases "findToolUse (resp_content resp)")
        case found: (Some inp)
        with miss Inr rm
        have "length (ac_sent (fst (createChatCompletion P options c))) \<le> Suc (length (ac_sent c))"
          by (subst createChatCompletion.simps) (simp add: Let_def ac_logger_def)
        then show ?thesis by (rule returns)
      next
        case none: None
        from retry_step [OF rm \<open>cachedResponse c options = None\<close> Inr none] obtain c'
          where step: "createChatCompletion P options c =
            (if mayRetry (retries options)
             then createChatCompletion P (retryOptions P options) c'
             else (c', Inl (noToolUseError P)))"
            and sent: "ac_sent c' = ac_sent c @ [buildRequest P options]"
          by blast
        show ?thesis
        proof (cases "mayRetry (retries options)")
          case True
          with step sent show ?thesis by (intro retries [of c']) simp_all
        next
          case False
          with step sent show ?thesis by (intro returns) simp
        qed
      qed
    qed
  qed
qed

text \<open>Whatever the provider and the cache answer, the retries end.\<close>

lemma sent_bound:
  "length (ac_sent (fst (createChatCompletion P options c))) \<le>
     length (ac_sent c) + attempts (retries options)"
proof (induction "attempts (retries options)" arbitrary: options c rule: less_induct)
  case less
  show ?case
  proof (cases P options c rule: createChatCompletion_cases)
    case returns
    with attempts_positive [of "retries options"] show ?thesis by simp
  next
    case (retries c')
    have smaller: "attempts (retries (retryOptions P options)) < attempts (retries options)"
      using attempts_next [OF retries(1)] by simp
    from less.hyps [OF smaller, of c'] retries attempts_next [OF retries(1)]
    show ?thesis by simp
  qed
qed

lemma retries_exhausted:
  assumes prov: "\<forall>n q. \<exists>resp. messages_create P n q = Inr resp \<and> findToolUse (resp_content resp) = None"
  shows "response_model options \<noteq> None \<Longrightarrow>
     (\<forall>k<attempts (retries options). cachedResponse c ((retryOptions P ^^ k) options) = None) \<Longrightarrow>
     snd (createChatCompletion P options c) = Inl (noToolUseError P) \<and>
     length (ac_sent (fst (createChatCompletion P options c))) =
       length (ac_sent c) + attempts (retries options)"
proof (induction "attempts (retries options)" arbitrary: options c rule: less_induct)
  case less
  from less.prems(1) obtain rm where rm: "response_model options = Some rm" by auto
  from less.prems(2) attempts_positive [of "retries options"]
  have miss: "cachedResponse c options = None" by force
  from prov obtain resp
    where resp: "messages_create P (length (ac_sent c)) (buildRequest P options) = Inr resp"
      and none: "findToolUse (resp_content resp) = None"
    by blast
  from retry_step [OF rm miss resp none] obtain c'
    where step: "createChatCompletion P options c =
            (if mayRetry (retries options)
             then createChatCompletion P (retryOptions P options) c'
             else (c', Inl (noToolUseError P)))"
      and sent: "ac_sent c' = ac_sent c @ [buildRequest P options]"
      and cache: "ac_cache c' = ac_cache c"
      and flag: "ac_enableCaching c' = ac_enableCaching c"
      and rid: "ac_requestId c' = ac_requestId c"
    by blast
  show ?case
  proof (cases "mayRetry (retries options)")
    case True
    let ?o = "retryOptions P options"
    have smaller: "attempts (retries ?o) < attempts (retries options)"
      using attempts_next [OF True] by simp
    have rm': "response_model ?o \<noteq> None" using rm by simp
    have miss': "\<forall>k<attempts (retries ?o). cachedResponse c' ((retryOptions P ^^ k) ?o) = None"
    proof (intro allI impI)
      fix k assume "k < attempts (retries ?o)"
      with attempts_next [OF True] have "Suc k < attempts (retries options)" by simp
      with less.prems(2) have "cachedResponse c ((retryOptions P ^^ Suc k) options) = None"
        by blast
      then show "cachedResponse c' ((retryOptions P ^^ k) ?o) = None"
        by (simp add: funpow_swap1 cachedResponse_cong [OF flag cache rid])
    qed
    from less.hyps [OF smaller rm' miss'] True step sent attempts_next [OF True]
    show ?thesis by simp
  next
    case False
    with step sent attempts_last [OF False] show ?thesis by simp
  qed
qed

lemma tool_use_returned:
  assumes rm: "response_model options = Some rm"
    and miss: "cachedResponse c options = None"
    and resp: "messages_create P (length (ac_sent c)) (buildRequest P options) = Inr resp"
    and some: "findToolUse (resp_content resp) = Some inp"
  shows "snd (createChatCompletion P options c) = Inr (Structured inp)"
proof -
  from miss have "ac_enableCaching c \<longrightarrow>
      cache_get (ac_cache c) (cacheOptions options) (ac_requestId c) = None"
    by (simp add: cachedResponse_def split: if_splits)
  then show ?thesis
    by (subst createChatCompletion.simps) (simp add: Let_def rm resp some ac_logger_def)
qed

text \<open>
  Claim C7. On a call with a response schema, whatever the provider and the cache answer,
  the client sends at most \<open>attempts\<close> requests: the first and at most five retries for a
  fresh call. When the provider's response to a call (which no cached response answered)
  holds no tool-use block, the client calls itself again with the retry counter incremented
  while \<^verbatim>\<open>!retries || retries < 5\<close>, and fails with the explicit error otherwise. So when no
  response ever holds a tool-use block and no cached response answers the call or one of
  its retries, the call fails with "Create Chat Completion Failed: No tool use with input
  in response" after exactly \<open>attempts\<close> provider calls. When the response holds a tool-use
  block, the input of that block is the result.
\<close>

theorem structured_output_retry_bound:
  assumes "response_model options = Some rm"
  shows
    "length (ac_sent (fst (createChatCompletion P options c))) \<le>
       length (ac_sent c) + attempts (retries options) \<and>
     (\<forall>resp. cachedResponse c options = None \<and>
        messages_create P (length (ac_sent c)) (buildRequest P options) = Inr resp \<and>
        findToolUse (resp_content resp) = None \<longrightarrow>
        (\<exists>c'. createChatCompletion P options c =
            (if mayRetry (retries options)
             then createChatCompletion P (retryOptions P options) c'
             else (c', Inl (noToolUseError P))) \<and>
          ac_sent c' = ac_sent c @ [buildRequest P options])) \<and>
     retries (retryOptions P options) =
       Some ((case retries options of None \<Rightarrow> 0 | Some n \<Rightarrow> n) + 1) \<and>
     ((\<forall>n q. \<exists>resp. messages_create P n q = Inr resp \<and> findToolUse (resp_content resp) = None) \<and>
      (\<forall>k<attempts (retries options). cachedResponse c ((retryOptions P ^^ k) options) = None) \<longrightarrow>
        snd (createChatCompletion P options c) = Inl (noToolUseError P) \<and>
        length (ac_sent (fst (createChatCompletion P options c))) =
          length (ac_sent c) + attempts (retries options)) \<and>
     (\<forall>resp inp. cachedResponse c options = None \<and>
        messages_create P (length (ac_sent c)) (buildRequest P options) = Inr resp \<and>
        findToolUse (resp_content resp) = Some inp \<longrightarrow>
        snd (createChatCompletion P options c) = Inr (Structured inp)) \<and>
     attempts None = 6 \<and>
     err_message (noToolUseError P) =
       ''Create Chat Completion Failed: No tool use with input in response''"
proof (intro conjI allI impI)
  show "length (ac_sent (fst (createChatCompletion P options c))) \<le>
       length (ac_sent c) + attempts (retries options)"
    by (rule sent_bound)
next
  fix resp
  assume "cachedResponse c options = None \<and>
        messages_create P (length (ac_sent c)) (buildRequest P options) = Inr resp \<and>
        findToolUse (resp_content resp) = None"
  then have miss: "cachedResponse c options = None"
    and resp: "messages_create P (length (ac_sent c)) (buildRequest P options) = Inr resp"
    and none: "findToolUse (resp_content resp) = None"
    by simp_all
  from retry_step [OF assms miss resp none] obtain c'
    where step: "createChatCompletion P options c =
            (if mayRetry (retries options)
             then createChatCompletion P (retryOptions P options) c'
             else (c', Inl (noToolUseError P)))"
      and sent: "ac_sent c' = ac_sent c @ [buildRequest P options]"
    by blast
  show "\<exists>c'. createChatCompletion P options c =
            (if mayRetry (retries options)
             then createChatCompletion P (retryOptions P options) c'
             else (c', Inl (noToolUseError P))) \<and>
          ac_sent c' = ac_sent c @ [buildRequest P options]"
    by (rule exI [of _ c'], rule conjI [OF step sent])
next
  show "retries (retryOptions P options) =
       Some ((case retries options of None \<Rightarrow> 0 | Some n \<Rightarrow> n) + 1)"
    by (simp add: nextRetries_def)
next
  assume a: "(\<forall>n q. \<exists>resp. messages_create P n q = Inr resp \<and> findToolUse (resp_content resp) = None) \<and>
      (\<forall>k<attempts (retries options). cachedResponse c ((retryOptions P ^^ k) options) = None)"
  then have prov: "\<forall>n q. \<exists>resp. messages_create P n q = Inr resp \<and> findToolUse (resp_content resp) = None"
    and miss: "\<forall>k<attempts (retries options). cachedResponse c ((retryOptions P ^^ k) options) = None"
    by simp_all
  from retries_exhausted [OF prov _ miss] assms
  show "snd (createChatCompletion P options c) = Inl (noToolUseError P)"
    and "length (ac_sent (fst (createChatCompletion P options c))) =
          length (ac_sent c) + attempts (retries options)"
    by simp_all
next
  fix resp inp
  assume "cachedResponse c options = None \<and>
        messages_create P (length (ac_sent c)) (buildRequest P options) = Inr resp \<and>
        findToolUse (resp_content resp) = Some inp"
  then show "snd (createChatCompletion P options c) = Inr (Structured inp)"
    using tool_use_returned [OF assms, of c P resp inp] by simp
next
  show "attempts None = 6" by (simp add: attempts_def)
next
  show "err_message (noToolUseError P) =
       ''Create Chat Completion Failed: No tool use with input in response''"
    by (simp add: noToolUseError_def)
qed

text \<open>
  The sample client with caching on, asked for a structured result, its cache holding a
  response to the same question put to another model. A provider that only answers in text
  makes the call fail after six requests; a provider that answers with a tool-use block
  gets its input returned.
\<close>

lemma retryOptions_model: "model ((retryOptions P ^^ k) options) = model options"
  by (induction k) simp_all

lemma otherModel_misses:
  "cachedResponse
     (demoClient\<lparr>ac_enableCaching := True,
                  ac_cache := [(cacheOptions (demoOptions\<lparr>model := ''gpt-4o''\<rparr>),
                                Structured ''{title: Find}'', ''p7w2m1'')]\<rparr>)
     ((retryOptions P ^^ k)
        (demoOptions\<lparr>response_model := Some \<lparr>rm_name = ''Extraction'', rm_schema = ''{title: string}''\<rparr>\<rparr>)) =
   None"
proof -
  have "cacheOptions (demoOptions\<lparr>model := ''gpt-4o''\<rparr>) \<noteq>
        cacheOptions ((retryOptions P ^^ k)
          (demoOptions\<lparr>response_model := Some \<lparr>rm_name = ''Extraction'', rm_schema = ''{title: string}''\<rparr>\<rparr>))"
  proof
    assume "cacheOptions (demoOptions\<lparr>model := ''gpt-4o''\<rparr>) =
        cacheOptions ((retryOptions P ^^ k)
          (demoOptions\<lparr>response_model := Some \<lparr>rm_name = ''Extraction'', rm_schema = ''{title: string}''\<rparr>\<rparr>))"
    then have "co_model (cacheOptions (demoOptions\<lparr>model := ''gpt-4o''\<rparr>)) =
        co_model (cacheOptions ((retryOptions P ^^ k)
          (demoOptions\<lparr>response_model := Some \<lparr>rm_name = ''Extraction'', rm_schema = ''{title: string}''\<rparr>\<rparr>)))"
      by simp
    then show False
      by (simp add: cacheOptions_def retryOptions_model) (simp add: demoOptions_def)
  qed
  then show ?thesis
    by (simp add: cachedResponse_def cache_get_def demoClient_def)
qed

theorem structured_output_retry_bound_witness:
  "snd (createChatCompletion demoProvider
          (demoOptions\<lparr>response_model := Some \<lparr>rm_name = ''Extraction'', rm_schema = ''{title: string}''\<rparr>\<rparr>)
          (demoClient\<lparr>ac_enableCaching := True,
                       ac_cache := [(cacheOptions (demoOptions\<lparr>model := ''gpt-4o''\<rparr>),
                                     Structured ''{title: Find}'', ''p7w2m1'')]\<rparr>)) =
     Inl (JsError ''Create Chat Completion Failed: No tool use with input in response''
            ''at AnthropicClient.createChatCompletion'') \<and>
   length (ac_sent (fst (createChatCompletion demoProvider
          (demoOptions\<lparr>response_model := Some \<lparr>rm_name = ''Extraction'', rm_schema = ''{title: string}''\<rparr>\<rparr>)
          (demoClient\<lparr>ac_enableCaching := True,
                       ac_cache := [(cacheOptions (demoOptions\<lparr>model := ''gpt-4o''\<rparr>),
                                     Structured ''{title: Find}'', ''p7w2m1'')]\<rparr>)))) = 6 \<and>
   snd (createChatCompletion (demoProvider\<lparr>messages_create := \<lambda>n q. Inr toolResponse\<rparr>)
          (demoOptions\<lparr>response_model := Some \<lparr>rm_name = ''Extraction'', rm_schema = ''{title: string}''\<rparr>\<rparr>)
          (demoClient\<lparr>ac_enableCaching := True,
                       ac_cache := [(cacheOptions (demoOptions\<lparr>model := ''gpt-4o''\<rparr>),
                                     Structured ''{title: Find}'', ''p7w2m1'')]\<rparr>)) =
     Inr (Structured ''{title: Search}'')"
proof -
  let ?o = "demoOptions\<lparr>response_model := Some \<lparr>rm_name = ''Extraction'', rm_schema = ''{title: string}''\<rparr>\<rparr>"
  let ?c = "demoClient\<lparr>ac_enableCaching := True,
                       ac_cache := [(cacheOptions (demoOptions\<lparr>model := ''gpt-4o''\<rparr>),
                                     Structured ''{title: Find}'', ''p7w2m1'')]\<rparr>"
  let ?P = "demoProvider\<lparr>messages_create := \<lambda>n q. Inr toolResponse\<rparr>"
  have rm: "response_model ?o = Some \<lparr>rm_name = ''Extraction'', rm_schema = ''{title: string}''\<rparr>"
    by simp
  have prov: "\<forall>n q. \<exists>resp. messages_create demoProvider n q = Inr resp \<and>
      findToolUse (resp_content resp) = None"
    by (simp add: demoProvider_def textResponse_def)
  have miss: "\<forall>k<attempts (retries ?o). cachedResponse ?c ((retryOptions demoProvider ^^ k) ?o) = None"
    by (simp add: otherModel_misses)
  have miss0: "cachedResponse ?c ?o = None"
    using otherModel_misses [where P = ?P and k = 0] by simp
  have tool: "messages_create ?P (length (ac_sent ?c)) (buildRequest ?P ?o) = Inr toolResponse"
    by simp
  have found: "findToolUse (resp_content toolResponse) = Some ''{title: Search}''"
    by (simp add: toolResponse_def)
  from structured_output_retry_bound [OF rm, of demoProvider ?c] prov miss
  have failed: "snd (createChatCompletion demoProvider ?o ?c) = Inl (noToolUseError demoProvider)"
    and sent: "length (ac_sent (fst (createChatCompletion demoProvider ?o ?c))) =
          length (ac_sent ?c) + attempts (retries ?o)"
    by blast+
  from structured_output_retry_bound [OF rm, of ?P ?c] miss0 tool found
  have returned: "snd (createChatCompletion ?P ?o ?c) = Inr (Structured ''{title: Search}'')"
    by blast
  have "noToolUseError demoProvider =
      JsError ''Create Chat Completion Failed: No tool use with input in response''
            ''at AnthropicClient.createChatCompletion''"
    by (simp add: noToolUseError_def demoProvider_def)
  moreover have "length (ac_sent ?c) + attempts (retries ?o) = 6"
    by (simp add: demoClient_def demoOptions_def attempts_def)
  ultimately show ?thesis
    using failed sent returned by simp
qed


text \<open>
  Claim C8, as amended. The key the client hands to the cache is \<^verbatim>\<open>cacheOptions\<close>. It is
  determined by exactly the fields model, messages, temperature, image (the whole
  attachment), response schema, tool list and retry counter: two requests have the same key
  if and only if they agree on these seven. A cached response under that key is what a call
  with caching enabled returns.
\<close>

theorem cache_key_fields:
  "(cacheOptions a = cacheOptions b \<longleftrightarrow>
      model a = model b \<and> messages a = messages b \<and> temperature a = temperature b \<and>
      image a = image b \<and> response_model a = response_model b \<and> tools a = tools b \<and>
      retries a = retries b) \<and>
   (\<forall>v. ac_enableCaching c \<and> cache_get (ac_cache c) (cacheOptions a) (ac_requestId c) = Some v \<longrightarrow>
      snd (createChatCompletion P a c) = Inr v)"
  by (subst createChatCompletion.simps) (auto simp add: cacheOptions_def Let_def ac_logger_def)

text \<open>
  The claim as stated fails: a first call and its retry agree on model, messages,
  temperature, image presence, response schema and tool list, and have different keys.
\<close>

theorem cache_key_fields_counterexample:
  "model demoOptions = model (demoOptions\<lparr>retries := Some 1\<rparr>) \<and>
   messages demoOptions = messages (demoOptions\<lparr>retries := Some 1\<rparr>) \<and>
   temperature demoOptions = temperature (demoOptions\<lparr>retries := Some 1\<rparr>) \<and>
   (image demoOptions = None) = (image (demoOptions\<lparr>retries := Some 1\<rparr>) = None) \<and>
   response_model demoOptions = response_model (demoOptions\<lparr>retries := Some 1\<rparr>) \<and>
   tools demoOptions = tools (demoOptions\<lparr>retries := Some 1\<rparr>) \<and>
   cacheOptions demoOptions \<noteq> cacheOptions (demoOptions\<lparr>retries := Some 1\<rparr>)"
  by (simp add: cacheOptions_def demoOptions_def)

text \<open>A cache that holds a response under the key of the sample options answers the call.\<close>

theorem cache_key_fields_witness:
  "snd (createChatCompletion demoProvider demoOptions
          (demoClient\<lparr>ac_enableCaching := True,
                       ac_cache := [(cacheOptions demoOptions, Structured ''{title: Search}'', ''k3x9q0'')]\<rparr>)) =
     Inr (Structured ''{title: Search}'')"
  using cache_key_fields
      [of demoOptions demoOptions
          "demoClient\<lparr>ac_enableCaching := True,
                       ac_cache := [(cacheOptions demoOptions, Structured ''{title: Search}'', ''k3x9q0'')]\<rparr>"
          demoProvider]
  by (simp add: cache_get_def)

text \<open>
  Claim C6 fails on the code. The sample options carry an image; the one request the
  client sends holds the user's text message and no image block. (Line 79 filters
  \<^verbatim>\<open>userMessages\<close> out of \<^verbatim>\<open>options.messages\<close> before line 101 appends the image message
  to \<^verbatim>\<open>options.messages\<close>, and line 149 sends \<^verbatim>\<open>userMessages\<close>.)
\<close>

theorem anthropic_request_omits_image:
  "map req_messages (ac_sent (fst (createChatCompletion demoProvider demoOptions demoClient))) =
     [[\<lparr>role = ''user'', content = Text ''find the search button''\<rparr>]] \<and>
   image demoOptions = Some \<lparr>buffer = [255, 216, 255], img_description = Some ''the annotated page''\<rparr>"
  by (subst createChatCompletion.simps)
     (simp add: Let_def ac_logger_def demoClient_def demoOptions_def demoProvider_def
        buildRequest_def userMessages_def attachImage_def textResponse_def)

text \<open>
  A retry does carry the image. With a response schema, a first answer in text and a second
  with a tool-use block, the client sends two requests: the first holds only the user's
  text message; the second, built from the \<^verbatim>\<open>options.messages\<close> that the first call
  extended, also holds the image message.
\<close>

theorem retry_request_carries_image:
  "map req_messages
     (ac_sent (fst (createChatCompletion
        (demoProvider\<lparr>messages_create := \<lambda>n q. if n = 0 then Inr textResponse else Inr toolResponse\<rparr>)
        (demoOptions\<lparr>response_model := Some \<lparr>rm_name = ''Extraction'', rm_schema = ''{title: string}''\<rparr>\<rparr>)
        demoClient))) =
   [[\<lparr>role = ''user'', content = Text ''find the search button''\<rparr>],
    [\<lparr>role = ''user'', content = Text ''find the search button''\<rparr>,
     \<lparr>role = ''user'',
      content = Blocks [ImageBlock ''base64'' ''image/jpeg'' ''/9j/'', TextBlock ''the annotated page'']\<rparr>]]"
  apply (subst createChatCompletion.simps)
  apply (simp add: Let_def ac_logger_def demoClient_def demoOptions_def
        demoProvider_def buildRequest_def userMessages_def attachImage_def textResponse_def
        mayRetry_def nextRetries_def screenshotMessage_def)
  apply (subst createChatCompletion.simps)
  apply (simp add: Let_def ac_logger_def demoClient_def demoOptions_def
        demoProvider_def buildRequest_def userMessages_def attachImage_def toolResponse_def
        mayRetry_def nextRetries_def screenshotMessage_def)
  done


subsection \<open>What the helpers leave of the session\<close>

lemma startDomDebug_fields [simp]:
  "calls (fst (startDomDebug w s)) = calls s @ [StartDomDebug]"
  "llm_cache (fst (startDomDebug w s)) = llm_cache s"
  "defaultModelName (fst (startDomDebug w s)) = defaultModelName s"
  "debugDom (fst (startDomDebug w s)) = debugDom s"
  "enableCaching (fst (startDomDebug w s)) = enableCaching s"
  "domSettleTimeoutMs (fst (startDomDebug w s)) = domSettleTimeoutMs s"
  by (simp_all add: startDomDebug_def Let_def split: option.split)

lemma startDomDebug_resolves:
  assumes "startDebugFault w (length (calls s)) \<noteq> Some JsNullish"
  shows "snd (startDomDebug w s) = Inr ()"
  using assms by (auto simp add: startDomDebug_def Let_def split: option.split)

lemma startDomDebug_case:
  assumes "snd (startDomDebug w s) = Inr ()"
  shows "(case startDomDebug w s of (s', Inl e) \<Rightarrow> f s' e | (s', Inr u) \<Rightarrow> g s' u) =
     g (fst (startDomDebug w s)) ()"
  using assms by (cases "startDomDebug w s") simp



text \<open>Whether the wait resolves does not depend on what was logged before it.\<close>

lemma wait_snd_log [simp]:
  "snd (private_waitForSettledDom w t (Stagehand_log l s)) =
     snd (private_waitForSettledDom w t s)"
proof -
  define T where "T = (case t of None \<Rightarrow> domSettleTimeoutMs s | Some u \<Rightarrow> u)"
  have T': "(case t of None \<Rightarrow> domSettleTimeoutMs (Stagehand_log l s) | Some u \<Rightarrow> u) = T"
    by (simp add: T_def cong: option.case_cong)
  have race: "snd (settleRace w T (Stagehand_log l s)) = snd (settleRace w T s)"
    by (simp add: settleRace_def Let_def split: settle_input.split race_end.split)
  have caught: "snd (logCaught w c p v e s1) =
      (if e = JsNullish then Inl (typeError w ''message'') else Inr ())" for c p v e s1
    by (cases e) simp_all
  show ?thesis
    unfolding wait_unfold T' T_def [symmetric] race
    by (cases "snd (settleRace w T s)") (simp_all add: caught)
qed

lemma cleanupDomDebug_fields [simp]:
  "calls (cleanupDomDebug s) = calls s @ (if debugDom s then [CleanupDebug] else [])"
  "llm_cache (cleanupDomDebug s) = llm_cache s"
  "defaultModelName (cleanupDomDebug s) = defaultModelName s"
  "debugDom (cleanupDomDebug s) = debugDom s"
  "enableCaching (cleanupDomDebug s) = enableCaching s"
  "domSettleTimeoutMs (cleanupDomDebug s) = domSettleTimeoutMs s"
  "logged (cleanupDomDebug s) = logged s"
  by (simp_all add: cleanupDomDebug_def)

lemma recordObservation_fields [simp]:
  "calls (private_recordObservation w i r s) = calls s"
  "llm_cache (private_recordObservation w i r s) = llm_cache s"
  "enableCaching (private_recordObservation w i r s) = enableCaching s"
  "logged (private_recordObservation w i r s) = logged s"
  by (simp_all add: private_recordObservation_def)

subsection \<open>Observation\<close>

lemma newCalls_append [simp]: "calls s' = calls s @ xs \<Longrightarrow> newCalls s s' = xs"
  by (simp add: newCalls_def)

lemma screenshots_append [simp]: "screenshots (xs @ ys) = screenshots xs @ screenshots ys"
  by (induction xs rule: screenshots.induct) simp_all

lemma observeCalls_append [simp]: "observeCalls (xs @ ys) = observeCalls xs @ observeCalls ys"
  by (induction xs rule: observeCalls.induct) simp_all



lemma skipVisionLine_level [simp]:
  "(skipVisionLine m)\<lparr>level := Some (case level (skipVisionLine m) of None \<Rightarrow> 1 | Some n \<Rightarrow> if n = 0 then 1 else n)\<rparr>
     = skipVisionLine m"
  by (simp add: skipVisionLine_def)
















subsection \<open>Extraction over chunks\<close>

text \<open>
  One round of \<^verbatim>\<open>_extract\<close> whose waits, DOM read and inference succeed: it returns, or calls
  itself with one more chunk seen and no request id. In both cases the chunk pushed is the
  one the DOM read returned.
\<close>

lemma extract_round:
  fixes p :: extract_params and s :: Stagehand
  defines "seen \<equiv> (case p_chunksSeen p of None \<Rightarrow> [] | Some x \<Rightarrow> x)"
  defines "q \<equiv> (\<lambda>d.
      \<lparr>ex_instruction = p_instruction p,
       ex_progress = (case p_progress p of None \<Rightarrow> [] | Some x \<Rightarrow> x),
       ex_previouslyExtractedContent = (case p_content p of None \<Rightarrow> ''{}'' | Some x \<Rightarrow> x),
       ex_domElements = outputString d,
       ex_schema = p_schema p,
       ex_modelName = modelOr (p_modelName p) (defaultModelName s),
       ex_chunksSeen = length seen,
       ex_chunksTotal = length (chunks d),
       ex_requestId = p_requestId p\<rparr>)"
  defines "roundCalls \<equiv> (\<lambda>d.
      [WaitForSettle (case p_domSettleTimeoutMs p of None \<Rightarrow> domSettleTimeoutMs s | Some u \<Rightarrow> u),
       StartDomDebug, ProcessDom seen, InferExtract (q d)] @
      (if debugDom s then [CleanupDebug] else []))"
  assumes quiet: "\<forall>n. \<not> nullishSettle (settle w n)"
    and debug: "\<forall>n. startDebugFault w n \<noteq> Some JsNullish"
    and d: "processDom w (Suc (Suc (length (calls s)))) seen = Inr d"
    and r: "snd (inference_extract w (Suc (Suc (Suc (length (calls s))))) (q d) (llm_cache s)) = Inr r"
  shows "(er_completed r \<or> Suc (length seen) = length (chunks d) \<longrightarrow>
           (\<exists>s1. private_extract w p s = Some (s1, seen @ [chunk d], Inr (er_output r)) \<and>
                 calls s1 = calls s @ roundCalls d)) \<and>
         (\<not> (er_completed r \<or> Suc (length seen) = length (chunks d)) \<longrightarrow>
           (\<exists>s2. private_extract w p s =
                   private_extract w
                     \<lparr>p_instruction = p_instruction p,
                      p_schema = p_schema p,
                      p_progress = Some (er_progress r),
                      p_content = Some (er_output r),
                      p_chunksSeen = Some (seen @ [chunk d]),
                      p_modelName = p_modelName p,
                      p_requestId = None,
                      p_domSettleTimeoutMs = p_domSettleTimeoutMs p\<rparr> s2 \<and>
                 calls s2 = calls s @ roundCalls d @
                   [WaitForSettle (case p_domSettleTimeoutMs p of
                                     None \<Rightarrow> domSettleTimeoutMs s | Some u \<Rightarrow> u)] \<and>
                 debugDom s2 = debugDom s \<and> domSettleTimeoutMs s2 = domSettleTimeoutMs s \<and>
                 defaultModelName s2 = defaultModelName s))"
  apply (subst (1 2) private_extract.simps)
  using d r unfolding seen_def q_def roundCalls_def
  apply (simp add: Let_def wait_case wait_resolves quiet startDomDebug_case
           startDomDebug_resolves debug cong: option.case_cong)
  apply (intro conjI impI)
     apply (rule exI, rule conjI, rule refl, simp cong: option.case_cong)+
  done

lemma inferences_append [simp]: "inferences (xs @ ys) = inferences xs @ inferences ys"
  by (induction xs rule: inferences.induct) simp_all

lemma domReads_append [simp]: "domReads (xs @ ys) = domReads xs @ domReads ys"
  by (induction xs rule: domReads.induct) simp_all

text \<open>
  All rounds, from any list of chunks seen: the inference of round \<open>k\<close> is told that \<open>k\<close>
  chunks were seen, only the first carries the request id, the lists handed to the page
  grow by one new chunk each round, and that chunk is the one the page returned in the
  round.
\<close>

lemma extract_rounds:
  assumes page: "\<forall>n seen. length seen < N \<longrightarrow>
      (\<exists>d. processDom w n seen = Inr d \<and> length (chunks d) = N \<and> chunk d \<notin> set seen)"
    and model: "\<forall>n q entries. \<exists>r. snd (inference_extract w n q entries) = Inr r \<and>
      (Suc (ex_chunksSeen q) < N \<longrightarrow> \<not> er_completed r)"
    and quiet: "\<forall>n. \<not> nullishSettle (settle w n)"
    and debug: "\<forall>n. startDebugFault w n \<noteq> Some JsNullish"
  shows "seen = (case p_chunksSeen p of None \<Rightarrow> [] | Some x \<Rightarrow> x) \<Longrightarrow>
     length seen < N \<Longrightarrow> distinct seen \<Longrightarrow>
     \<exists>s' out new cs. private_extract w p s = Some (s', seen @ cs, Inr out) \<and>
        calls s' = calls s @ new \<and>
        map ex_chunksSeen (inferences new) = [length seen..<N] \<and>
        map ex_requestId (inferences new) = p_requestId p # replicate (N - Suc (length seen)) None \<and>
        length cs = N - length seen \<and> distinct (seen @ cs) \<and>
        domReads new = map (\<lambda>k. seen @ take k cs) [0..<N - length seen] \<and>
        (\<forall>k<N - length seen.
           \<exists>d. processDom w (length (calls s) + k * roundLength s + 2) (seen @ take k cs) = Inr d \<and>
               cs ! k = chunk d \<and> length (chunks d) = N)"
proof (induction "N - length seen" arbitrary: p s seen)
  case 0
  then show ?case by simp
next
  case (Suc k)
  let ?q = "\<lambda>d.
      \<lparr>ex_instruction = p_instruction p,
       ex_progress = (case p_progress p of None \<Rightarrow> [] | Some x \<Rightarrow> x),
       ex_previouslyExtractedContent = (case p_content p of None \<Rightarrow> ''{}'' | Some x \<Rightarrow> x),
       ex_domElements = outputString d,
       ex_schema = p_schema p,
       ex_modelName = modelOr (p_modelName p) (defaultModelName s),
       ex_chunksSeen = length (case p_chunksSeen p of None \<Rightarrow> [] | Some x \<Rightarrow> x),
       ex_chunksTotal = length (chunks d),
       ex_requestId = p_requestId p\<rparr>"
  let ?T = "case p_domSettleTimeoutMs p of None \<Rightarrow> domSettleTimeoutMs s | Some u \<Rightarrow> u"
  let ?round = "\<lambda>d. [WaitForSettle ?T, StartDomDebug, ProcessDom seen, InferExtract (?q d)] @
      (if debugDom s then [CleanupDebug] else [])"
  let ?p' = "\<lambda>d r.
      \<lparr>p_instruction = p_instruction p,
       p_schema = p_schema p,
       p_progress = Some (er_progress r),
       p_content = Some (er_output r),
       p_chunksSeen = Some (seen @ [chunk d]),
       p_modelName = p_modelName p,
       p_requestId = None,
       p_domSettleTimeoutMs = p_domSettleTimeoutMs p\<rparr>"
  note seen = Suc.prems(1)
  from page Suc.prems(2) obtain d
    where d: "processDom w (Suc (Suc (length (calls s)))) seen = Inr d"
      and total: "length (chunks d) = N" and fresh: "chunk d \<notin> set seen"
    by blast
  from model obtain r
    where r: "snd (inference_extract w (Suc (Suc (Suc (length (calls s))))) (?q d) (llm_cache s)) = Inr r"
      and early: "Suc (ex_chunksSeen (?q d)) < N \<longrightarrow> \<not> er_completed r"
    by blast
  have early': "Suc (length seen) < N \<longrightarrow> \<not> er_completed r"
    using early seen by simp
  have first: "processDom w (length (calls s) + 0 * roundLength s + 2) (seen @ take 0 cs) = Inr d"
    for cs :: "nat list"
    using d by simp
  note step = extract_round [OF quiet debug d [unfolded seen] r]
  show ?case
  proof (cases "er_completed r \<or> Suc (length seen) = length (chunks d)")
    case True
    with step obtain s1
      where s1: "private_extract w p s = Some (s1, seen @ [chunk d], Inr (er_output r))"
        and c1: "calls s1 = calls s @ ?round d"
      using seen by auto
    from True early' total Suc.prems(2) have last: "Suc (length seen) = N" by auto
    have f1: "map ex_chunksSeen (inferences (?round d)) = [length seen..<N]"
      using last seen by (simp add: upt_rec)
    have f2: "map ex_requestId (inferences (?round d)) =
        p_requestId p # replicate (N - Suc (length seen)) None"
      using last by simp
    have f3: "length [chunk d] = N - length seen" using last by simp
    have f4: "distinct (seen @ [chunk d])" using Suc.prems(3) fresh by simp
    have f5: "domReads (?round d) = map (\<lambda>k. seen @ take k [chunk d]) [0..<N - length seen]"
      using last by (simp add: upt_rec)
    have f6: "\<forall>k<N - length seen.
           \<exists>d'. processDom w (length (calls s) + k * roundLength s + 2) (seen @ take k [chunk d]) = Inr d' \<and>
               [chunk d] ! k = chunk d' \<and> length (chunks d') = N"
    proof (intro allI impI)
      fix j assume "j < N - length seen"
      with last have "j = 0" by simp
      with first [of "[chunk d]"] total
      show "\<exists>d'. processDom w (length (calls s) + j * roundLength s + 2) (seen @ take j [chunk d]) = Inr d' \<and>
               [chunk d] ! j = chunk d' \<and> length (chunks d') = N"
        by simp
    qed
    show ?thesis
      by (intro exI conjI) (rule s1, rule c1, rule f1, rule f2, rule f3, rule f4, rule f5, rule f6)
  next
    case False
    with step obtain s2
      where s2: "private_extract w p s = private_extract w (?p' d r) s2"
        and c2: "calls s2 = calls s @ ?round d @ [WaitForSettle ?T]"
        and dbg: "debugDom s2 = debugDom s"
      using seen by auto
    from False total Suc.prems(2) have more: "Suc (length seen) < N" by simp
    have k: "k = N - length (seen @ [chunk d])" using Suc.hyps(2) by simp
    have a1: "seen @ [chunk d] = (case p_chunksSeen (?p' d r) of None \<Rightarrow> [] | Some x \<Rightarrow> x)"
      by simp
    have a2: "length (seen @ [chunk d]) < N" using more by simp
    have a3: "distinct (seen @ [chunk d])" using Suc.prems(3) fresh by simp
    from Suc.hyps(1) [OF k a1 a2 a3, of s2] obtain s' out new cs
      where run: "private_extract w (?p' d r) s2 = Some (s', (seen @ [chunk d]) @ cs, Inr out)"
        and calls': "calls s' = calls s2 @ new"
        and counts: "map ex_chunksSeen (inferences new) = [length (seen @ [chunk d])..<N]"
        and rids: "map ex_requestId (inferences new) =
                     p_requestId (?p' d r) # replicate (N - Suc (length (seen @ [chunk d]))) None"
        and len: "length cs = N - length (seen @ [chunk d])"
        and dist: "distinct ((seen @ [chunk d]) @ cs)"
        and reads: "domReads new =
                      map (\<lambda>k. (seen @ [chunk d]) @ take k cs) [0..<N - length (seen @ [chunk d])]"
        and answers: "\<forall>k<N - length (seen @ [chunk d]).
           \<exists>d'. processDom w (length (calls s2) + k * roundLength s2 + 2)
                   ((seen @ [chunk d]) @ take k cs) = Inr d' \<and>
               cs ! k = chunk d' \<and> length (chunks d') = N"
      by (elim exE conjE) (rule that, assumption+)
    let ?new = "?round d @ [WaitForSettle ?T] @ new"
    have g0: "private_extract w p s = Some (s', seen @ chunk d # cs, Inr out)"
      using s2 run by simp
    have g1: "calls s' = calls s @ ?new" using calls' c2 by simp
    have g2: "map ex_chunksSeen (inferences ?new) = [length seen..<N]"
      using counts more seen by (simp add: upt_conv_Cons)
    have g3: "map ex_requestId (inferences ?new) =
        p_requestId p # replicate (N - Suc (length seen)) None"
    proof -
      from more have "N - Suc (length seen) = Suc (N - Suc (Suc (length seen)))" by simp
      with rids show ?thesis by simp
    qed
    have g4: "length (chunk d # cs) = N - length seen" using len more by simp
    have g5: "distinct (seen @ chunk d # cs)" using dist by simp
    have g6: "domReads ?new = map (\<lambda>k. seen @ take k (chunk d # cs)) [0..<N - length seen]"
    proof -
      from more have "N - length seen = Suc (N - Suc (length seen))" by simp
      with reads show ?thesis by (simp add: map_upt_Suc del: upt_Suc)
    qed
    have len2: "length (calls s2) = length (calls s) + roundLength s"
      using c2 by (simp add: roundLength_def)
    have same: "roundLength s2 = roundLength s"
      using dbg by (simp add: roundLength_def)
    have g7: "\<forall>j<N - length seen.
           \<exists>d'. processDom w (length (calls s) + j * roundLength s + 2)
                   (seen @ take j (chunk d # cs)) = Inr d' \<and>
               (chunk d # cs) ! j = chunk d' \<and> length (chunks d') = N"
    proof (intro allI impI)
      fix j assume j: "j < N - length seen"
      show "\<exists>d'. processDom w (length (calls s) + j * roundLength s + 2)
                   (seen @ take j (chunk d # cs)) = Inr d' \<and>
               (chunk d # cs) ! j = chunk d' \<and> length (chunks d') = N"
      proof (cases j)
        case 0
        with first [of cs] total show ?thesis by simp
      next
        case (Suc i)
        with j have "i < N - length (seen @ [chunk d])" by simp
        with answers obtain d'
          where "processDom w (length (calls s2) + i * roundLength s2 + 2)
                   ((seen @ [chunk d]) @ take i cs) = Inr d'"
            and "cs ! i = chunk d'" and "length (chunks d') = N"
          by blast
        moreover have "length (calls s2) + i * roundLength s2 + 2 =
            length (calls s) + j * roundLength s + 2"
          using Suc len2 same by simp
        ultimately show ?thesis using Suc by simp
      qed
    qed
    show ?thesis
      by (intro exI conjI)
         (rule g0, rule g1, rule g2, rule g3, rule g4, rule g5, rule g6, rule g7)
  qed
qed

text \<open>
  Claim C2. Take a DOM of \<open>N\<close> chunks (\<open>N > 0\<close>): for every list of fewer than \<open>N\<close> chunks
  seen, \<^verbatim>\<open>processDom\<close> returns a chunk not in the list and \<open>N\<close> as the total. Let every inference
  return a response, with \<^verbatim>\<open>completed\<close> false in every round before the last, and let the page
  hand nothing that is \<^verbatim>\<open>undefined\<close> or \<^verbatim>\<open>null\<close> to the waits and to the start of the debug
  overlay. Then a fresh \<^verbatim>\<open>_extract\<close> returns a result after exactly \<open>N\<close> inference rounds,
  leaving \<^verbatim>\<open>chunksSeen\<close> as a duplicate-free list \<open>cs\<close> of length \<open>N\<close>, the total chunk count.
  Round \<open>k\<close> (from 0) runs with the first \<open>k\<close> entries of \<open>cs\<close> as \<^verbatim>\<open>chunksSeen\<close>, tells the
  inference that \<open>k\<close> chunks were seen, and appends as entry \<open>k\<close> the chunk that \<^verbatim>\<open>processDom\<close>
  returned for these \<open>k\<close> entries in that round (the DOM read of round \<open>k\<close> is call number
  \<open>k * roundLength s + 2\<close> of the extraction).
\<close>

theorem extraction_one_round_per_chunk:
  assumes "0 < N"
    and "\<forall>n seen. length seen < N \<longrightarrow>
      (\<exists>d. processDom w n seen = Inr d \<and> length (chunks d) = N \<and> chunk d \<notin> set seen)"
    and "\<forall>n q entries. \<exists>r. snd (inference_extract w n q entries) = Inr r \<and>
      (Suc (ex_chunksSeen q) < N \<longrightarrow> \<not> er_completed r)"
    and "\<forall>n. \<not> nullishSettle (settle w n)"
    and "\<forall>n. startDebugFault w n \<noteq> Some JsNullish"
    and "p_chunksSeen p = None"
  shows "\<exists>s' out cs. private_extract w p s = Some (s', cs, Inr out) \<and>
           length (inferences (newCalls s s')) = N \<and>
           map ex_chunksSeen (inferences (newCalls s s')) = [0..<N] \<and>
           length cs = N \<and> distinct cs \<and>
           domReads (newCalls s s') = map (\<lambda>k. take k cs) [0..<N] \<and>
           (\<forall>k<N. \<exists>d. processDom w (length (calls s) + k * roundLength s + 2) (take k cs) = Inr d \<and>
                       cs ! k = chunk d \<and> length (chunks d) = N)"
proof -
  have start: "[] = (case p_chunksSeen p of None \<Rightarrow> [] | Some x \<Rightarrow> x)"
    using assms(6) by simp
  from extract_rounds [OF assms(2) assms(3) assms(4) assms(5) start, of s] assms(1)
  obtain s' out new cs
    where run: "private_extract w p s = Some (s', cs, Inr out)"
      and new: "calls s' = calls s @ new"
      and counts: "map ex_chunksSeen (inferences new) = [0..<N]"
      and len: "length cs = N" and dist: "distinct cs"
      and reads: "domReads new = map (\<lambda>k. take k cs) [0..<N]"
      and answers: "\<forall>k<N. \<exists>d. processDom w (length (calls s) + k * roundLength s + 2) (take k cs) = Inr d \<and>
                       cs ! k = chunk d \<and> length (chunks d) = N"
    by auto
  from counts have "length (inferences new) = N"
    by (metis length_map length_upt minus_nat.diff_0)
  with run new counts len dist reads answers show ?thesis
    by (intro exI [of _ s'] exI [of _ out] exI [of _ cs]) simp
qed

text \<open>The sample page and model meet the assumptions for two chunks.\<close>

lemma demoWorld_page:
  "\<forall>n seen. length seen < 2 \<longrightarrow>
     (\<exists>d. processDom demoWorld n seen = Inr d \<and> length (chunks d) = 2 \<and> chunk d \<notin> set seen)"
proof (intro allI impI)
  fix n :: nat and seen :: "nat list"
  have "(if seen = [] then 0 else Suc (Max (set seen))) \<notin> set seen"
  proof (cases "seen = []")
    case True
    then show ?thesis by simp
  next
    case False
    have "Suc (Max (set seen)) \<notin> set seen"
    proof
      assume "Suc (Max (set seen)) \<in> set seen"
      then have "Suc (Max (set seen)) \<le> Max (set seen)" by (intro Max_ge) simp_all
      then show False by simp
    qed
    with False show ?thesis by simp
  qed
  then show "\<exists>d. processDom demoWorld n seen = Inr d \<and> length (chunks d) = 2 \<and> chunk d \<notin> set seen"
    by (simp add: demoWorld_def demoSnapshot_def)
qed

lemma demoWorld_model:
  "\<forall>n q entries. \<exists>r. snd (inference_extract demoWorld n q entries) = Inr r \<and>
      (Suc (ex_chunksSeen q) < 2 \<longrightarrow> \<not> er_completed r)"
  by (simp add: demoWorld_def)

lemma demoWorld_quiet:
  "\<forall>n. \<not> nullishSettle (settle demoWorld n)"
  "\<forall>n. startDebugFault demoWorld n \<noteq> Some JsNullish"
  by (simp_all add: demoWorld_def)

theorem extraction_one_round_per_chunk_witness:
  "\<exists>s' out.
     private_extract demoWorld
       (initialParams ''get the title'' ''{title: string}'' None ''k3x9q0'' None) demoSession =
       Some (s', [0, 1], Inr out) \<and>
     length (inferences (newCalls demoSession s')) = 2 \<and>
     map ex_chunksSeen (inferences (newCalls demoSession s')) = [0, 1] \<and>
     domReads (newCalls demoSession s') = [[], [0]]"
proof -
  have two: "[0..<2] = [0, Suc 0]" by (simp add: upt_rec)
  have "(0::nat) < 2" by simp
  from extraction_one_round_per_chunk [OF this demoWorld_page demoWorld_model demoWorld_quiet,
      of "initialParams ''get the title'' ''{title: string}'' None ''k3x9q0'' None" demoSession]
  obtain s' out cs
    where run: "private_extract demoWorld
       (initialParams ''get the title'' ''{title: string}'' None ''k3x9q0'' None) demoSession =
       Some (s', cs, Inr out)"
      and n: "length (inferences (newCalls demoSession s')) = 2"
      and counts: "map ex_chunksSeen (inferences (newCalls demoSession s')) = [0, 1]"
      and len: "length cs = 2"
      and reads: "domReads (newCalls demoSession s') = [[], take 1 cs]"
      and answers: "\<forall>k<2. \<exists>d. processDom demoWorld
             (length (calls demoSession) + k * roundLength demoSession + 2) (take k cs) = Inr d \<and>
           cs ! k = chunk d \<and> length (chunks d) = 2"
    by (auto simp add: initialParams_def two)
  from len obtain a b where cs: "cs = [a, b]"
    by (cases cs; cases "tl cs") auto
  from answers [rule_format, of 0] cs have a: "a = 0"
    by (auto simp add: demoWorld_def demoSnapshot_def)
  from answers [rule_format, of 1] cs a have b: "b = 1"
    by (auto simp add: demoWorld_def demoSnapshot_def)
  from run n counts reads cs a b show ?thesis by simp
qed

text \<open>
  Claim C5 fails on the code. A public \<^verbatim>\<open>extract\<close> over the two chunks of the sample page
  makes two inference calls: the first carries the request id generated for the call, the
  second carries none. (The recursive call of lines 714-722 passes every parameter on
  except \<^verbatim>\<open>requestId\<close>.)
\<close>

theorem extract_recursion_drops_request_id:
  "\<exists>s' out.
     Stagehand_extract demoWorld ''get the title'' ''{title: string}'' None None demoSession =
       Some (s', Inr out) \<and>
     map ex_requestId (inferences (calls s')) = [Some ''k3x9q0'', None]"
proof -
  let ?p = "initialParams ''get the title'' ''{title: string}'' None ''k3x9q0'' None"
  let ?s = "Stagehand_log (extractBanner ''get the title'' ''k3x9q0'') demoSession"
  have rid: "randomRequestId demoWorld (length (calls demoSession)) = ''k3x9q0''"
    by (simp add: demoWorld_def demoSession_def digits_zero)
  have start: "[] = (case p_chunksSeen ?p of None \<Rightarrow> [] | Some x \<Rightarrow> x)"
    by (simp add: initialParams_def)
  from extract_rounds [OF demoWorld_page demoWorld_model demoWorld_quiet start, of ?s]
  obtain s' out new cs
    where run: "private_extract demoWorld ?p ?s = Some (s', cs, Inr out)"
      and new: "calls s' = calls ?s @ new"
      and rids: "map ex_requestId (inferences new) = p_requestId ?p # replicate (2 - Suc 0) None"
    by auto
  from new have "calls s' = new" by (simp add: demoSession_def)
  with rids have "map ex_requestId (inferences (calls s')) = [Some ''k3x9q0'', None]"
    by (simp add: initialParams_def)
  with run rid show ?thesis
    by (simp add: Stagehand_extract_def)
qed

subsection \<open>Failure of extract and observe\<close>










end
